theory Spec2Isabelle
  imports Complex_Main
begin

section \<open>Data model of \<open>main.py\<close>\<close>

text \<open>
  Python's unbounded \<open>int\<close> is \<open>int\<close>. A Python \<open>float\<close> is a \<open>pyfloat\<close>: a finite
  float \<open>Fin r\<close> of real value \<open>r\<close>, plus or minus infinity, or NaN. Rounding is not
  modelled: a finite result is the exact real, so a result too small for a float is not
  rounded to zero, a test on a result (is it zero, is it an integer) is the test on the
  exact value, and \<open>0.0\<close> and \<open>-0.0\<close> are both \<open>Fin 0\<close>. Leaving the float range is
  modelled: a real of magnitude \<open>float_bound\<close> or more does not round to a finite float.
  The exceptions of the operations are values of \<open>error\<close>.
\<close>

datatype error = ZeroDivisionError | OverflowError | ValueError | AttributeError

datatype pyfloat = Fin real | PInf | NInf | NaN

text \<open>
  The power operator of a float may return a \<open>complex\<close>, so a number computed by the
  scoring code is a \<open>pynum\<close>. \<open>PyComplex\<close> stands for some complex number: its value is
  not modelled, and neither are the exceptions Python's arithmetic on complex operands
  raises.
\<close>

datatype pynum = PyFloat pyfloat | PyComplex

text \<open>
  \<open>class Armour\<close>: the dataclass fields in declaration order. \<open>total\<close> has
  \<open>init=False\<close> and is set by \<open>__post_init__\<close>.
\<close>

record Armour =
  name :: string
  physical :: int
  fire :: int
  bleed :: int
  poison :: int
  plague :: int
  total :: int

text \<open>
  \<open>class ArmourSet(Armour)\<close>: the inherited fields, then \<open>parts\<close> and
  \<open>weighted_total\<close>. \<open>weighted_total\<close> has \<open>init=False\<close> and no default: the
  attribute does not exist (\<open>None\<close> here) until something assigns it.
\<close>

record ArmourSet = Armour +
  parts :: "Armour list"
  weighted_total :: "pynum option"

text \<open>
  \<open>Armour(name, physical=.., fire=.., bleed=.., poison=.., plague=..)\<close>: the generated
  \<open>__init__\<close> stores the five arguments and calls \<open>__post_init__\<close>, which sums the
  fields of \<open>Armour\<close> whose type is \<open>int\<close> and whose name is not \<open>total\<close>, in field
  order.
\<close>

definition Armour_init :: "string \<Rightarrow> int \<Rightarrow> int \<Rightarrow> int \<Rightarrow> int \<Rightarrow> int \<Rightarrow> Armour" where
  "Armour_init n ph fi bl po pl =
     \<lparr>name = n, physical = ph, fire = fi, bleed = bl, poison = po, plague = pl,
      total = sum_list [ph, fi, bl, po, pl]\<rparr>"

text \<open>
  \<open>ArmourSet(name=.., physical=.., .., parts=..)\<close>: \<open>__post_init__\<close> only calls the
  one of \<open>Armour\<close>, so \<open>total\<close> is the same sum and \<open>weighted_total\<close> stays unset.
\<close>

definition ArmourSet_init ::
  "string \<Rightarrow> int \<Rightarrow> int \<Rightarrow> int \<Rightarrow> int \<Rightarrow> int \<Rightarrow> Armour list \<Rightarrow> ArmourSet" where
  "ArmourSet_init n ph fi bl po pl ps =
     \<lparr>name = n, physical = ph, fire = fi, bleed = bl, poison = po, plague = pl,
      total = sum_list [ph, fi, bl, po, pl], parts = ps, weighted_total = None\<rparr>"

text \<open>The four module-level catalogs, the only state the functions read.\<close>

record globals =
  head :: "Armour list"
  torso :: "Armour list"
  arms :: "Armour list"
  legs :: "Armour list"

definition module_globals :: globals where
  "module_globals =
     \<lparr>head =
        [Armour_init ''Gold Mask'' 2 8 16 16 16,
         Armour_init ''Three-Conered Hat'' 10 5 6 6 24,
         Armour_init ''Imperial Spy Hood'' 12 10 8 16 0,
         Armour_init ''Assassin's Mask'' 10 7 6 24 0],
      torso =
        [Armour_init ''Old Ragged Robes'' 26 13 15 15 62,
         Armour_init ''Black Leather Garb'' 25 17 15 62 0,
         Armour_init ''Imperial Spy Clothes'' 26 18 24 46 0],
      arms =
        [Armour_init ''Old Ragged Gloves'' 16 8 9 9 37,
         Armour_init ''Black Gloves'' 15 10 9 37 0,
         Armour_init ''Imperial Spy Gloves'' 15 14 14 32 0],
      legs =
        [Armour_init ''Old Ragged Boots'' 16 8 9 9 37,
         Armour_init ''Black Boots'' 15 10 9 37 0,
         Armour_init ''Imperial Spy Leggings'' 15 14 14 32 0]\<rparr>"

section \<open>Library functions the program calls\<close>

text \<open>
  \<open>itertools.product(*iterables)\<close>, after the equivalent code of its documentation:
  \<open>result = [[]]\<close>, then for each pool \<open>result = [x+[y] for x in result for y in pool]\<close>
  (here \<open>product_step result pool\<close>). A tuple is a list.
\<close>

definition product_step :: "'a list list \<Rightarrow> 'a list \<Rightarrow> 'a list list" where
  "product_step result pool = concat (map (\<lambda>x. map (\<lambda>y. x @ [y]) pool) result)"

definition product :: "'a list list \<Rightarrow> 'a list list" where
  "product pools = fold (\<lambda>pool result. product_step result pool) pools [[]]"

text \<open>\<open>sep.join(strings)\<close>.\<close>

fun join :: "string \<Rightarrow> string list \<Rightarrow> string" where
  "join sep [] = []"
| "join sep [s] = s"
| "join sep (s # t # ss) = s @ sep @ join sep (t # ss)"

text \<open>
  \<open>min(iterable)\<close> and \<open>max(iterable)\<close> over integers: \<open>ValueError\<close> when the
  iterable is empty, otherwise a left-to-right scan from the first element.
\<close>

definition py_min :: "int list \<Rightarrow> error + int" where
  "py_min xs = (case xs of [] \<Rightarrow> Inl ValueError | x # rest \<Rightarrow> Inr (fold min rest x))"

definition py_max :: "int list \<Rightarrow> error + int" where
  "py_max xs = (case xs of [] \<Rightarrow> Inl ValueError | x # rest \<Rightarrow> Inr (fold max rest x))"

text \<open>
  The reals that round to a finite double are those of magnitude below
  \<open>2^1024 - 2^970\<close>, the largest double plus half a unit in its last place.
  \<open>round_float\<close> is the result of an IEEE operation whose exact result is \<open>r\<close>.
\<close>

definition float_bound :: real where
  "float_bound = 2 ^ 1024 - 2 ^ 970"

definition round_float :: "real \<Rightarrow> pyfloat" where
  "round_float r =
     (if float_bound \<le> r then PInf else if r \<le> - float_bound then NInf else Fin r)"

text \<open>
  \<open>a / b\<close> on two \<open>int\<close>s: \<open>ZeroDivisionError\<close> for a zero divisor, \<open>OverflowError\<close>
  when the quotient is too large for a float, else the float of the quotient.
\<close>

definition int_truediv :: "int \<Rightarrow> int \<Rightarrow> error + real" where
  "int_truediv a b =
     (if b = 0 then Inl ZeroDivisionError
      else if float_bound \<le> \<bar>of_int a / of_int b\<bar> then Inl OverflowError
      else Inr (of_int a / of_int b))"

text \<open>
  \<open>a + b\<close> and \<open>a * b\<close> on two floats never raise: they overflow to an infinity, and
  \<open>inf - inf\<close> and \<open>0 * inf\<close> are NaN.
\<close>

fun float_add :: "pyfloat \<Rightarrow> pyfloat \<Rightarrow> pyfloat" where
  "float_add NaN b = NaN"
| "float_add a NaN = NaN"
| "float_add (Fin x) (Fin y) = round_float (x + y)"
| "float_add PInf NInf = NaN"
| "float_add NInf PInf = NaN"
| "float_add PInf b = PInf"
| "float_add NInf b = NInf"
| "float_add (Fin x) b = b"

fun float_mul :: "pyfloat \<Rightarrow> pyfloat \<Rightarrow> pyfloat" where
  "float_mul NaN b = NaN"
| "float_mul a NaN = NaN"
| "float_mul (Fin x) (Fin y) = round_float (x * y)"
| "float_mul (Fin x) PInf = (if x = 0 then NaN else if 0 < x then PInf else NInf)"
| "float_mul (Fin x) NInf = (if x = 0 then NaN else if 0 < x then NInf else PInf)"
| "float_mul PInf (Fin y) = (if y = 0 then NaN else if 0 < y then PInf else NInf)"
| "float_mul NInf (Fin y) = (if y = 0 then NaN else if 0 < y then NInf else PInf)"
| "float_mul PInf PInf = PInf"
| "float_mul PInf NInf = NInf"
| "float_mul NInf PInf = NInf"
| "float_mul NInf NInf = PInf"

text \<open>
  \<open>a / b\<close> on two floats: \<open>ZeroDivisionError\<close> for a zero divisor, and no other
  exception: the quotient overflows to an infinity, a finite float over an infinity is
  \<open>0.0\<close>.
\<close>

fun float_truediv :: "pyfloat \<Rightarrow> pyfloat \<Rightarrow> error + pyfloat" where
  "float_truediv NaN b = (if b = Fin 0 then Inl ZeroDivisionError else Inr NaN)"
| "float_truediv a NaN = Inr NaN"
| "float_truediv (Fin x) (Fin y) =
     (if y = 0 then Inl ZeroDivisionError else Inr (round_float (x / y)))"
| "float_truediv (Fin x) b = Inr (Fin 0)"
| "float_truediv PInf (Fin y) =
     (if y = 0 then Inl ZeroDivisionError else if 0 < y then Inr PInf else Inr NInf)"
| "float_truediv NInf (Fin y) =
     (if y = 0 then Inl ZeroDivisionError else if 0 < y then Inr NInf else Inr PInf)"
| "float_truediv a b = Inr NaN"

text \<open>The comparison \<open>w >= 0\<close> on a float: false for NaN.\<close>

fun float_nonneg :: "pyfloat \<Rightarrow> bool" where
  "float_nonneg (Fin r) = (0 \<le> r)"
| "float_nonneg PInf = True"
| "float_nonneg NInf = False"
| "float_nonneg NaN = False"

text \<open>An odd integer, as the interpreter tests the exponent of a negative base.\<close>

definition is_odd_integer :: "real \<Rightarrow> bool" where
  "is_odd_integer y = (y = of_int \<lfloor>y\<rfloor> \<and> odd \<lfloor>y\<rfloor>)"

text \<open>
  \<open>x ** y\<close> for two floats, after the interpreter's \<open>float_pow\<close>, whose checks come in
  this order: anything to the power \<open>0\<close> is \<open>1.0\<close>; a NaN base gives NaN; a NaN exponent
  gives NaN unless the base is \<open>1.0\<close>; an infinite exponent gives \<open>1.0\<close>, infinity or
  \<open>0.0\<close> as the magnitude of the base is 1, on the side of 1 the exponent points to, or
  on the other side; an infinite base gives an infinity for a positive exponent (negative
  only for a negative base and an odd exponent) and \<open>0.0\<close> for a negative one; \<open>0.0\<close> to
  a negative power raises \<open>ZeroDivisionError\<close>, to a positive power is \<open>0.0\<close>; a negative
  base with a non-integral exponent goes to the complex power, which raises
  \<open>OverflowError\<close> when the magnitude of the result leaves the float range; a base of
  magnitude 1 gives 1 or -1; anything else is the power of the magnitude, negated for a
  negative base and an odd exponent, and \<open>OverflowError\<close> when it leaves the float range.
\<close>

fun float_pow :: "pyfloat \<Rightarrow> pyfloat \<Rightarrow> error + pynum" where
  "float_pow NaN iw = Inr (PyFloat (if iw = Fin 0 then Fin 1 else NaN))"
| "float_pow (Fin x) NaN = Inr (PyFloat (if x = 1 then Fin 1 else NaN))"
| "float_pow iv NaN = Inr (PyFloat NaN)"
| "float_pow (Fin x) PInf =
     Inr (PyFloat (if \<bar>x\<bar> = 1 then Fin 1 else if 1 < \<bar>x\<bar> then PInf else Fin 0))"
| "float_pow (Fin x) NInf =
     Inr (PyFloat (if \<bar>x\<bar> = 1 then Fin 1 else if 1 < \<bar>x\<bar> then Fin 0 else PInf))"
| "float_pow iv PInf = Inr (PyFloat PInf)"
| "float_pow iv NInf = Inr (PyFloat (Fin 0))"
| "float_pow PInf (Fin y) =
     Inr (PyFloat (if y = 0 then Fin 1 else if 0 < y then PInf else Fin 0))"
| "float_pow NInf (Fin y) =
     Inr (PyFloat (if y = 0 then Fin 1
                   else if 0 < y then (if is_odd_integer y then NInf else PInf)
                   else Fin 0))"
| "float_pow (Fin x) (Fin y) =
     (if y = 0 then Inr (PyFloat (Fin 1))
      else if x = 0 then (if y < 0 then Inl ZeroDivisionError else Inr (PyFloat (Fin 0)))
      else if x < 0 \<and> y \<noteq> of_int \<lfloor>y\<rfloor> then
        (if float_bound \<le> \<bar>x\<bar> powr y then Inl OverflowError else Inr PyComplex)
      else if \<bar>x\<bar> = 1 then
        Inr (PyFloat (Fin (if x < 0 \<and> is_odd_integer y then - 1 else 1)))
      else if float_bound \<le> \<bar>x\<bar> powr y then Inl OverflowError
      else Inr (PyFloat (Fin (if x < 0 \<and> is_odd_integer y then - (\<bar>x\<bar> powr y)
                              else \<bar>x\<bar> powr y))))"

text \<open>
  \<open>b ** y\<close>, \<open>a * b\<close> and \<open>a + b\<close> on numbers: the float operation on two floats, some
  complex number as soon as an operand is complex.
\<close>

fun py_pow :: "pynum \<Rightarrow> pyfloat \<Rightarrow> error + pynum" where
  "py_pow (PyFloat x) y = float_pow x y"
| "py_pow PyComplex y = Inr PyComplex"

fun py_mul :: "pynum \<Rightarrow> pynum \<Rightarrow> pynum" where
  "py_mul (PyFloat x) (PyFloat y) = PyFloat (float_mul x y)"
| "py_mul a b = PyComplex"

fun py_add :: "pynum \<Rightarrow> pynum \<Rightarrow> pynum" where
  "py_add (PyFloat x) (PyFloat y) = PyFloat (float_add x y)"
| "py_add a b = PyComplex"

text \<open>Sequencing of computations that may raise.\<close>

fun bind :: "error + 'a \<Rightarrow> ('a \<Rightarrow> error + 'b) \<Rightarrow> error + 'b" where
  "bind (Inl e) f = Inl e"
| "bind (Inr x) f = f x"

section \<open>The scoring function\<close>

text \<open>
  The local function \<open>normalise\<close> of \<open>get_geometric_mean\<close>. The float it returns is
  finite, and is given by its real value.
\<close>

definition normalise :: "int \<Rightarrow> int \<Rightarrow> int \<Rightarrow> error + real" where
  "normalise val min_val max_val =
     (if max_val = min_val then Inr 0
      else int_truediv (val - min_val) (max_val - min_val))"

text \<open>
  The weighted geometric mean of \<open>get_geometric_mean\<close>:
  \<open>(norm_poison**poison_weight * norm_plague**plague_weight) ** (1 / total_weight)\<close>
  with \<open>total_weight = poison_weight + plague_weight\<close>, the operands evaluated left to
  right. The two normalised values are finite floats, the weights are any floats, as the
  signature declares them.
\<close>

definition weighted_score :: "real \<Rightarrow> real \<Rightarrow> pyfloat \<Rightarrow> pyfloat \<Rightarrow> error + pynum" where
  "weighted_score norm_poison norm_plague poison_weight plague_weight =
     (let total_weight = float_add poison_weight plague_weight in
      bind (float_pow (Fin norm_poison) poison_weight) (\<lambda>a.
      bind (float_pow (Fin norm_plague) plague_weight) (\<lambda>b.
      bind (float_truediv (Fin 1) total_weight) (\<lambda>e.
      py_pow (py_mul a b) e))))"

definition get_geometric_mean ::
  "ArmourSet \<Rightarrow> int \<Rightarrow> int \<Rightarrow> int \<Rightarrow> int \<Rightarrow> int \<Rightarrow> int \<Rightarrow> pyfloat \<Rightarrow> pyfloat \<Rightarrow>
     error + pynum" where
  "get_geometric_mean armour min_poison max_poison min_plague max_plague min_total max_total
       poison_weight plague_weight =
     bind (normalise (poison armour) min_poison max_poison) (\<lambda>norm_poison.
     bind (normalise (plague armour) min_plague max_plague) (\<lambda>norm_plague.
     bind (normalise (total armour) min_total max_total) (\<lambda>norm_total.
     bind (weighted_score norm_poison norm_plague poison_weight plague_weight) (\<lambda>ws.
     Inr (py_add (py_mul (PyFloat (Fin 0.5)) (PyFloat (Fin norm_total)))
            (py_mul (PyFloat (Fin 0.5)) ws))))))"

section \<open>Generating and scoring the armour sets\<close>

text \<open>The body of the first loop of \<open>make_armourset_list\<close>: one candidate from one combination.\<close>

definition armourset_of_combo :: "Armour list \<Rightarrow> ArmourSet" where
  "armourset_of_combo combo =
     ArmourSet_init (join '' + '' (map name combo))
       (sum_list (map physical combo)) (sum_list (map fire combo))
       (sum_list (map bleed combo)) (sum_list (map poison combo))
       (sum_list (map plague combo)) combo"

text \<open>The first loop: \<open>for combo in product(head, torso, arms, legs): armours.append(..)\<close>.\<close>

definition generate :: "globals \<Rightarrow> ArmourSet list" where
  "generate g = map armourset_of_combo (product [head g, torso g, arms g, legs g])"

text \<open>
  The second loop: \<open>for armour in armours: armour.weighted_total = get_geometric_mean(..)\<close>
  with the default weights \<open>1.0\<close>. Each object of the list is updated in place; an
  exception leaves the loop.
\<close>

fun assign_weighted_totals ::
  "ArmourSet list \<Rightarrow> int \<Rightarrow> int \<Rightarrow> int \<Rightarrow> int \<Rightarrow> int \<Rightarrow> int \<Rightarrow> error + ArmourSet list" where
  "assign_weighted_totals [] min_poison max_poison min_plague max_plague min_total max_total =
     Inr []"
| "assign_weighted_totals (armour # rest) min_poison max_poison min_plague max_plague
       min_total max_total =
     bind (get_geometric_mean armour min_poison max_poison min_plague max_plague
             min_total max_total (Fin 1) (Fin 1)) (\<lambda>w.
     bind (assign_weighted_totals rest min_poison max_poison min_plague max_plague
             min_total max_total) (\<lambda>rest'.
     Inr (armour\<lparr>weighted_total := Some w\<rparr> # rest')))"

text \<open>
  \<open>make_armourset_list\<close>: the function reads the module's catalogs and returns the list
  or raises; the catalogs are passed through as the state.
\<close>

definition make_armourset_list :: "globals \<Rightarrow> (error + ArmourSet list) \<times> globals" where
  "make_armourset_list g =
     (let armours = generate g in
      (bind (py_min (map poison armours)) (\<lambda>min_poison.
       bind (py_max (map poison armours)) (\<lambda>max_poison.
       bind (py_min (map plague armours)) (\<lambda>min_plague.
       bind (py_max (map plague armours)) (\<lambda>max_plague.
       bind (py_min (map total armours)) (\<lambda>min_total.
       bind (py_max (map total armours)) (\<lambda>max_total.
       assign_weighted_totals armours min_poison max_poison min_plague max_plague
         min_total max_total)))))),
       g))"

section \<open>Writing the table\<close>

text \<open>
  What \<open>dataclasses.fields\<close> returns for \<open>ArmourSet\<close>: the fields of \<open>Armour\<close> in
  declaration order, then those \<open>ArmourSet\<close> adds. Only \<open>parts\<close> is declared with
  \<open>repr=False\<close>.
\<close>

record dfield =
  fname :: string
  frepr :: bool

definition fields_Armour :: "dfield list" where
  "fields_Armour =
     [\<lparr>fname = ''name'', frepr = True\<rparr>,
      \<lparr>fname = ''physical'', frepr = True\<rparr>,
      \<lparr>fname = ''fire'', frepr = True\<rparr>,
      \<lparr>fname = ''bleed'', frepr = True\<rparr>,
      \<lparr>fname = ''poison'', frepr = True\<rparr>,
      \<lparr>fname = ''plague'', frepr = True\<rparr>,
      \<lparr>fname = ''total'', frepr = True\<rparr>]"

definition fields_ArmourSet :: "dfield list" where
  "fields_ArmourSet =
     fields_Armour @
     [\<lparr>fname = ''parts'', frepr = False\<rparr>,
      \<lparr>fname = ''weighted_total'', frepr = True\<rparr>]"

text \<open>The value of an attribute, as a cell of the table.\<close>

datatype pyval = VStr string | VInt int | VNum pynum | VList "Armour list"

text \<open>
  \<open>getattr(armour, field)\<close> on an \<open>ArmourSet\<close>: \<open>AttributeError\<close> for a name that is
  not an attribute, and for \<open>weighted_total\<close> before it has been assigned.
\<close>

definition getattr :: "ArmourSet \<Rightarrow> string \<Rightarrow> error + pyval" where
  "getattr armour field =
     (if field = ''name'' then Inr (VStr (name armour))
      else if field = ''physical'' then Inr (VInt (physical armour))
      else if field = ''fire'' then Inr (VInt (fire armour))
      else if field = ''bleed'' then Inr (VInt (bleed armour))
      else if field = ''poison'' then Inr (VInt (poison armour))
      else if field = ''plague'' then Inr (VInt (plague armour))
      else if field = ''total'' then Inr (VInt (total armour))
      else if field = ''parts'' then Inr (VList (parts armour))
      else if field = ''weighted_total'' then
        (case weighted_total armour of None \<Rightarrow> Inl AttributeError | Some w \<Rightarrow> Inr (VNum w))
      else Inl AttributeError)"

text \<open>
  The dict comprehension \<open>{field: getattr(armour, field) for field in field_names}\<close>, a
  dict being the list of its items in insertion order (the field names are distinct).
\<close>

fun row_dict :: "ArmourSet \<Rightarrow> string list \<Rightarrow> error + (string \<times> pyval) list" where
  "row_dict armour [] = Inr []"
| "row_dict armour (field # rest) =
     bind (getattr armour field) (\<lambda>v.
     bind (row_dict armour rest) (\<lambda>items. Inr ((field, v) # items)))"

text \<open>
  \<open>csv.DictWriter\<close>: a file is the list of the rows written to it, a row the list of
  its cells; the text of a cell (\<open>str\<close> of the value, quoting, line ends) is not
  modelled. \<open>writeheader\<close> writes the field names, \<open>writerow\<close> the values of the
  dict in the order of \<open>fieldnames\<close>, with the empty string for a missing key.
\<close>

type_synonym csv_file = "pyval list list"

definition writeheader :: "string list \<Rightarrow> csv_file \<Rightarrow> csv_file" where
  "writeheader fieldnames file = file @ [map VStr fieldnames]"

definition writerow :: "string list \<Rightarrow> (string \<times> pyval) list \<Rightarrow> csv_file \<Rightarrow> csv_file" where
  "writerow fieldnames row file =
     file @ [map (\<lambda>key. case map_of row key of Some v \<Rightarrow> v | None \<Rightarrow> VStr []) fieldnames]"

text \<open>The loop of \<open>write_to_csv\<close>; an exception leaves the rows written so far in the file.\<close>

fun write_rows :: "string list \<Rightarrow> ArmourSet list \<Rightarrow> csv_file \<Rightarrow> (error + unit) \<times> csv_file" where
  "write_rows field_names [] file = (Inr (), file)"
| "write_rows field_names (armour # rest) file =
     (case row_dict armour field_names of
        Inl e \<Rightarrow> (Inl e, file)
      | Inr row \<Rightarrow> write_rows field_names rest (writerow field_names row file))"

text \<open>
  \<open>write_to_csv(armours, path)\<close> on a file system that maps a path to the rows of the
  file there: \<open>open(path, mode="w")\<close> creates or empties the file. Failures of the
  file system itself are not modelled.
\<close>

definition write_to_csv ::
  "ArmourSet list \<Rightarrow> string \<Rightarrow> (string \<rightharpoonup> csv_file) \<Rightarrow> (error + unit) \<times> (string \<rightharpoonup> csv_file)" where
  "write_to_csv armours path fs =
     (let field_names = map fname (filter frepr fields_ArmourSet);
          (r, file) = write_rows field_names armours (writeheader field_names [])
      in (r, fs(path \<mapsto> file)))"

text \<open>
  The main block: \<open>options = make_armourset_list()\<close>, then
  \<open>write_to_csv(options, "out.csv")\<close>; an exception of the first call ends the run.
\<close>

definition main :: "globals \<Rightarrow> (string \<rightharpoonup> csv_file) \<Rightarrow> (error + unit) \<times> (string \<rightharpoonup> csv_file)" where
  "main g fs =
     (case fst (make_armourset_list g) of
        Inl e \<Rightarrow> (Inl e, fs)
      | Inr options \<Rightarrow> write_to_csv options ''out.csv'' fs)"

text \<open>
  A small input, the scenario of the specification: catalogs of sizes 2, 1, 1 and 1 whose two
  head items differ only in \<open>poison\<close> (0 and 10).
\<close>

definition scenario :: globals where
  "scenario =
     \<lparr>head = [Armour_init ''A'' 1 1 1 0 1, Armour_init ''B'' 1 1 1 10 1],
      torso = [Armour_init ''T'' 2 2 2 2 2],
      arms = [Armour_init ''R'' 3 3 3 3 3],
      legs = [Armour_init ''L'' 4 4 4 4 4]\<rparr>"

section \<open>The Cartesian product\<close>

lemma length_concat_map_map:
  "length (concat (map (\<lambda>x. map (f x) ys) xs)) = length xs * length ys"
  by (induction xs) simp_all

lemma index_in_block:
  fixes i j n m :: nat
  assumes "i < n" "j < m"
  shows "i * m + j < n * m"
proof -
  have "i * m + j < i * m + m" using assms(2) by simp
  also have "\<dots> = Suc i * m" by simp
  also have "\<dots> \<le> n * m" using assms(1) by (intro mult_le_mono1) simp
  finally show ?thesis .
qed

lemma nth_concat_map_map:
  "i < length xs \<Longrightarrow> j < length ys \<Longrightarrow>
   concat (map (\<lambda>x. map (f x) ys) xs) ! (i * length ys + j) = f (xs ! i) (ys ! j)"
proof (induction xs arbitrary: i)
  case Nil
  then show ?case by simp
next
  case (Cons x xs)
  show ?case
  proof (cases i)
    case 0
    with Cons.prems show ?thesis by (simp add: nth_append)
  next
    case (Suc i')
    with Cons.prems have "i' < length xs" by simp
    from Cons.IH [OF this Cons.prems(2)] Suc show ?thesis
      by (simp add: nth_append)
  qed
qed

lemma length_product_step: "length (product_step result pool) = length result * length pool"
  by (simp add: product_step_def length_concat_map_map)

lemma nth_product_step:
  "i < length result \<Longrightarrow> j < length pool \<Longrightarrow>
   product_step result pool ! (i * length pool + j) = result ! i @ [pool ! j]"
  unfolding product_step_def by (rule nth_concat_map_map)

lemma product4:
  "product [h, t, a, l] = product_step (product_step (product_step (product_step [[]] h) t) a) l"
  by (simp add: product_def)

lemma length_product4:
  "length (product [h, t, a, l]) = length h * length t * length a * length l"
  by (simp add: product4 length_product_step)

lemma nth_product4:
  assumes "i < length h" "j < length t" "k < length a" "m < length l"
  shows "product [h, t, a, l] ! (((i * length t + j) * length a + k) * length l + m)
           = [h ! i, t ! j, a ! k, l ! m]"
proof -
  let ?r1 = "product_step [[]] h"
  let ?r2 = "product_step ?r1 t"
  let ?r3 = "product_step ?r2 a"
  have n1: "?r1 ! i = [h ! i]"
    using nth_product_step [of 0 "[[]]" i h] assms(1) by simp
  have l1: "i < length ?r1" using assms(1) by (simp add: length_product_step)
  have n2: "?r2 ! (i * length t + j) = [h ! i, t ! j]"
    using nth_product_step [OF l1 assms(2)] n1 by simp
  have l2: "i * length t + j < length ?r2"
    using index_in_block [OF assms(1,2)] by (simp add: length_product_step)
  have n3: "?r3 ! ((i * length t + j) * length a + k) = [h ! i, t ! j, a ! k]"
    using nth_product_step [OF l2 assms(3)] n2 by simp
  have l3: "(i * length t + j) * length a + k < length ?r3"
    using index_in_block [OF index_in_block [OF assms(1,2)] assms(3)]
    by (simp add: length_product_step)
  show ?thesis
    using nth_product_step [OF l3 assms(4)] n3 by (simp add: product4)
qed

lemma set_product_step: "set (product_step result pool) = {x @ [y] | x y. x \<in> set result \<and> y \<in> set pool}"
  by (auto simp: product_step_def)

lemma set_product4:
  "set (product [h, t, a, l]) = {[x, y, z, w] | x y z w. x \<in> set h \<and> y \<in> set t \<and> z \<in> set a \<and> w \<in> set l}"
  by (auto simp: product4 set_product_step)

section \<open>Extrema and scores\<close>

lemma py_min_Min: "xs \<noteq> [] \<Longrightarrow> py_min xs = Inr (Min (set xs))"
  by (cases xs) (simp_all add: py_min_def Min.set_eq_fold [symmetric])

lemma py_max_Max: "xs \<noteq> [] \<Longrightarrow> py_max xs = Inr (Max (set xs))"
  by (cases xs) (simp_all add: py_max_def Max.set_eq_fold [symmetric])

lemma float_bound_ge: "2 ^ 1023 \<le> float_bound"
proof -
  have "(2::real) ^ 970 \<le> 2 ^ 1023" by (rule power_increasing) simp_all
  moreover have "(2::real) ^ 1024 = 2 ^ 1023 + 2 ^ 1023" by simp
  ultimately show ?thesis unfolding float_bound_def by linarith
qed

lemma float_bound_le: "float_bound \<le> 2 ^ 1024"
  by (simp add: float_bound_def)

lemma float_bound_gt_two: "2 < float_bound"
proof -
  have "(2::real) ^ 1 < 2 ^ 1023" by (rule power_strict_increasing) simp_all
  with float_bound_ge show ?thesis by simp
qed

lemma float_bound_gt_one: "1 < float_bound"
  using float_bound_gt_two by simp

lemma round_float_Fin: "\<bar>r\<bar> < float_bound \<Longrightarrow> round_float r = Fin r"
  by (auto simp: round_float_def)

lemma round_float_unit: "0 \<le> r \<Longrightarrow> r \<le> 1 \<Longrightarrow> round_float r = Fin r"
  using float_bound_gt_one by (intro round_float_Fin) simp

lemma round_float_pos: "0 < r \<Longrightarrow> round_float r = PInf \<or> round_float r = Fin r"
  using float_bound_gt_one by (auto simp: round_float_def)

lemma normalise_unfold:
  "normalise x m M = (if M = m then Inr 0 else int_truediv (x - m) (M - m))"
  by (simp add: normalise_def)

lemma normalise_in_range:
  assumes "m < M" "m \<le> x" "x \<le> M"
  shows "normalise x m M = Inr (real_of_int (x - m) / real_of_int (M - m))"
    and "0 \<le> real_of_int (x - m) / real_of_int (M - m)"
    and "real_of_int (x - m) / real_of_int (M - m) \<le> 1"
proof -
  show 0: "0 \<le> real_of_int (x - m) / real_of_int (M - m)" using assms by simp
  show 1: "real_of_int (x - m) / real_of_int (M - m) \<le> 1" using assms by simp
  from 0 1 have "\<bar>real_of_int (x - m) / real_of_int (M - m)\<bar> < float_bound"
    using float_bound_gt_one by linarith
  then show "normalise x m M = Inr (real_of_int (x - m) / real_of_int (M - m))"
    using assms(1) by (simp add: normalise_def int_truediv_def)
qed

lemma normalise_range:
  assumes "m \<le> x" "x \<le> M"
  shows "\<exists>r. normalise x m M = Inr r \<and> 0 \<le> r \<and> r \<le> 1"
proof (cases "M = m")
  case True
  then show ?thesis by (simp add: normalise_def)
next
  case False
  with assms have "m < M" by simp
  from normalise_in_range [OF this assms] show ?thesis by blast
qed

lemma normalise_error: "normalise x m M = Inl e \<Longrightarrow> e = OverflowError"
  by (auto simp: normalise_def int_truediv_def split: if_splits)

lemma powr_unit:
  fixes x y :: real
  assumes "0 < x" "x \<le> 1" "0 \<le> y"
  shows "0 < x powr y" and "x powr y \<le> 1"
proof -
  show "0 < x powr y" using assms(1) by simp
  have "x powr y \<le> 1 powr y" using assms by (intro powr_mono2) simp_all
  then show "x powr y \<le> 1" by simp
qed

lemma float_pow_unit:
  assumes "0 \<le> x" "x \<le> 1" "float_nonneg w"
  shows "\<exists>r. float_pow (Fin x) w = Inr (PyFloat (Fin r)) \<and> 0 \<le> r \<and> r \<le> 1"
proof (cases w)
  case (Fin y)
  with assms(3) have y: "0 \<le> y" by simp
  show ?thesis
  proof (cases "y = 0 \<or> x = 0 \<or> x = 1")
    case True
    with assms y show ?thesis unfolding Fin by auto
  next
    case False
    with assms have x: "0 < x" "x < 1" by simp_all
    from powr_unit [OF x(1) assms(2) y] float_bound_gt_one
    have "\<not> float_bound \<le> x powr y" "0 \<le> x powr y" "x powr y \<le> 1" by simp_all
    with False x y show ?thesis unfolding Fin by simp
  qed
next
  case PInf
  with assms show ?thesis by auto
next
  case NInf
  with assms show ?thesis by simp
next
  case NaN
  with assms show ?thesis by simp
qed

lemma float_pow_one:
  assumes "0 \<le> x" "x \<le> 1"
  shows "float_pow (Fin x) (Fin 1) = Inr (PyFloat (Fin x))"
proof (cases "x = 0 \<or> x = 1")
  case True
  then show ?thesis by auto
next
  case False
  with assms have "0 < x" "x < 1" by simp_all
  with float_bound_gt_one show ?thesis by simp
qed

lemma float_pow_half:
  assumes "0 \<le> x" "x \<le> 1"
  shows "float_pow (Fin x) (Fin (1 / 2)) = Inr (PyFloat (Fin (sqrt x)))"
proof (cases "x = 0 \<or> x = 1")
  case True
  then show ?thesis by auto
next
  case False
  with assms have x: "0 < x" "x < 1" by simp_all
  then have "sqrt x < 1" by simp
  with float_bound_gt_one have "\<not> float_bound \<le> sqrt x" by linarith
  with x show ?thesis by (simp add: powr_half_sqrt)
qed

lemma sqrt_prod_unit:
  fixes p q :: real
  assumes "0 \<le> p" "p \<le> 1" "0 \<le> q" "q \<le> 1"
  shows "0 \<le> sqrt (p * q)" "sqrt (p * q) \<le> 1"
proof -
  show "0 \<le> sqrt (p * q)" using assms by simp
  have "p * q \<le> 1 * 1" using assms by (intro mult_mono) simp_all
  then show "sqrt (p * q) \<le> 1" by simp
qed

lemma prod_unit:
  fixes p q :: real
  assumes "0 \<le> p" "p \<le> 1" "0 \<le> q" "q \<le> 1"
  shows "0 \<le> p * q" "p * q \<le> 1"
proof -
  show "0 \<le> p * q" using assms by simp
  have "p * q \<le> 1 * 1" using assms by (intro mult_mono) simp_all
  then show "p * q \<le> 1" by simp
qed

lemma weighted_score_default:
  assumes "0 \<le> p" "p \<le> 1" "0 \<le> q" "q \<le> 1"
  shows "weighted_score p q (Fin 1) (Fin 1) = Inr (PyFloat (Fin (sqrt (p * q))))"
proof -
  note pq = prod_unit [OF assms]
  have a: "float_pow (Fin p) (Fin 1) = Inr (PyFloat (Fin p))"
    by (rule float_pow_one [OF assms(1,2)])
  have b: "float_pow (Fin q) (Fin 1) = Inr (PyFloat (Fin q))"
    by (rule float_pow_one [OF assms(3,4)])
  have m: "float_mul (Fin p) (Fin q) = Fin (p * q)"
    using round_float_unit [OF pq] by simp
  have t: "float_add (Fin 1) (Fin 1) = Fin 2"
    using round_float_Fin [of 2] float_bound_gt_two by simp
  have c: "float_truediv (Fin 1) (Fin 2) = Inr (Fin (1 / 2))"
    using round_float_unit [of "1 / 2"] by simp
  have d: "float_pow (Fin (p * q)) (Fin (1 / 2)) = Inr (PyFloat (Fin (sqrt (p * q))))"
    by (rule float_pow_half [OF pq])
  show ?thesis
    by (simp only: weighted_score_def Let_def t a b c bind.simps py_mul.simps m py_pow.simps d)
qed

lemma half_sum_unit:
  fixes t s :: real
  assumes "0 \<le> t" "t \<le> 1" "0 \<le> s" "s \<le> 1"
  shows "py_add (py_mul (PyFloat (Fin 0.5)) (PyFloat (Fin t))) (py_mul (PyFloat (Fin 0.5)) (PyFloat (Fin s)))
           = PyFloat (Fin (0.5 * t + 0.5 * s))"
    and "0 \<le> 0.5 * t + 0.5 * s" and "0.5 * t + 0.5 * s \<le> 1"
proof -
  show 0: "0 \<le> 0.5 * t + 0.5 * s" using assms by linarith
  show 1: "0.5 * t + 0.5 * s \<le> 1" using assms by linarith
  have a: "round_float (0.5 * t) = Fin (0.5 * t)"
    using assms by (intro round_float_unit) simp_all
  have b: "round_float (0.5 * s) = Fin (0.5 * s)"
    using assms by (intro round_float_unit) simp_all
  have c: "round_float (0.5 * t + 0.5 * s) = Fin (0.5 * t + 0.5 * s)"
    by (rule round_float_unit [OF 0 1])
  show "py_add (py_mul (PyFloat (Fin 0.5)) (PyFloat (Fin t))) (py_mul (PyFloat (Fin 0.5)) (PyFloat (Fin s)))
           = PyFloat (Fin (0.5 * t + 0.5 * s))"
    using a b c by simp
qed

lemma get_geometric_mean_default:
  assumes "normalise (poison a) mp Mp = Inr p" "normalise (plague a) mq Mq = Inr q"
    "normalise (total a) mt Mt = Inr t"
    "0 \<le> p" "p \<le> 1" "0 \<le> q" "q \<le> 1" "0 \<le> t" "t \<le> 1"
  shows "get_geometric_mean a mp Mp mq Mq mt Mt (Fin 1) (Fin 1)
           = Inr (PyFloat (Fin (0.5 * t + 0.5 * sqrt (p * q))))"
proof -
  note s = sqrt_prod_unit [OF assms(4-7)]
  show ?thesis
    unfolding get_geometric_mean_def assms(1-3) bind.simps
      weighted_score_default [OF assms(4-7)] half_sum_unit(1) [OF assms(8,9) s] ..
qed

section \<open>The two loops of \<open>make_armourset_list\<close>\<close>

lemma assign_weighted_totals_Inr:
  assumes "assign_weighted_totals xs mp Mp mq Mq mt Mt = Inr ys"
  shows "list_all2 (\<lambda>x y. \<exists>w. get_geometric_mean x mp Mp mq Mq mt Mt (Fin 1) (Fin 1) = Inr w
                            \<and> y = x\<lparr>weighted_total := Some w\<rparr>) xs ys"
  using assms
proof (induction xs arbitrary: ys)
  case Nil
  then show ?case by simp
next
  case (Cons x xs)
  from Cons.prems obtain w where w: "get_geometric_mean x mp Mp mq Mq mt Mt (Fin 1) (Fin 1) = Inr w"
    by (cases "get_geometric_mean x mp Mp mq Mq mt Mt (Fin 1) (Fin 1)") simp_all
  from Cons.prems w obtain r where r: "assign_weighted_totals xs mp Mp mq Mq mt Mt = Inr r"
    by (cases "assign_weighted_totals xs mp Mp mq Mq mt Mt") simp_all
  from Cons.prems w r have ys: "ys = x\<lparr>weighted_total := Some w\<rparr> # r" by simp
  from Cons.IH [OF r] w show ?case unfolding ys by simp
qed

lemma assign_weighted_totals_total:
  assumes "\<And>x. x \<in> set xs \<Longrightarrow> \<exists>w. get_geometric_mean x mp Mp mq Mq mt Mt (Fin 1) (Fin 1) = Inr w"
  shows "\<exists>ys. assign_weighted_totals xs mp Mp mq Mq mt Mt = Inr ys"
  using assms
proof (induction xs)
  case Nil
  then show ?case by simp
next
  case (Cons x xs)
  from Cons.prems [of x] obtain w where w: "get_geometric_mean x mp Mp mq Mq mt Mt (Fin 1) (Fin 1) = Inr w"
    by auto
  from Cons.IH Cons.prems obtain r where "assign_weighted_totals xs mp Mp mq Mq mt Mt = Inr r"
    by auto
  with w show ?case by simp
qed

lemma generate_length:
  "length (generate g) = length (head g) * length (torso g) * length (arms g) * length (legs g)"
  by (simp add: generate_def length_product4)

lemma generate_Nil_iff:
  "generate g = [] \<longleftrightarrow> head g = [] \<or> torso g = [] \<or> arms g = [] \<or> legs g = []"
  using generate_length [of g] by (metis length_0_conv mult_is_0)

lemma make_armourset_list_empty:
  "generate g = [] \<Longrightarrow> fst (make_armourset_list g) = Inl ValueError"
  by (simp add: make_armourset_list_def py_min_def)

lemma make_armourset_list_nonempty:
  assumes "generate g \<noteq> []"
  shows "fst (make_armourset_list g) =
     assign_weighted_totals (generate g)
       (Min (poison ` set (generate g))) (Max (poison ` set (generate g)))
       (Min (plague ` set (generate g))) (Max (plague ` set (generate g)))
       (Min (total ` set (generate g))) (Max (total ` set (generate g)))"
  using assms by (simp add: make_armourset_list_def Let_def py_min_Min py_max_Max)

lemma in_range_scores:
  assumes "a \<in> set xs"
  shows "\<exists>p q t. normalise (poison a) (Min (poison ` set xs)) (Max (poison ` set xs)) = Inr p
    \<and> normalise (plague a) (Min (plague ` set xs)) (Max (plague ` set xs)) = Inr q
    \<and> normalise (total a) (Min (total ` set xs)) (Max (total ` set xs)) = Inr t
    \<and> 0 \<le> p \<and> p \<le> 1 \<and> 0 \<le> q \<and> q \<le> 1 \<and> 0 \<le> t \<and> t \<le> 1"
proof -
  have "Min (poison ` set xs) \<le> poison a" "poison a \<le> Max (poison ` set xs)"
    "Min (plague ` set xs) \<le> plague a" "plague a \<le> Max (plague ` set xs)"
    "Min (total ` set xs) \<le> total a" "total a \<le> Max (total ` set xs)"
    using assms by simp_all
  then show ?thesis
    using normalise_range by metis
qed

lemma make_armourset_list_returns:
  assumes "generate g \<noteq> []"
  shows "\<exists>armours. fst (make_armourset_list g) = Inr armours"
proof -
  have "\<exists>w. get_geometric_mean a (Min (poison ` set (generate g))) (Max (poison ` set (generate g)))
       (Min (plague ` set (generate g))) (Max (plague ` set (generate g)))
       (Min (total ` set (generate g))) (Max (total ` set (generate g))) (Fin 1) (Fin 1) = Inr w"
    if "a \<in> set (generate g)" for a
  proof -
    from in_range_scores [OF that] obtain p q t
      where "normalise (poison a) (Min (poison ` set (generate g)))
               (Max (poison ` set (generate g))) = Inr p"
        "normalise (plague a) (Min (plague ` set (generate g)))
               (Max (plague ` set (generate g))) = Inr q"
        "normalise (total a) (Min (total ` set (generate g)))
               (Max (total ` set (generate g))) = Inr t"
        "0 \<le> p" "p \<le> 1" "0 \<le> q" "q \<le> 1" "0 \<le> t" "t \<le> 1"
      by blast
    from get_geometric_mean_default [OF this] show ?thesis by blast
  qed
  then show ?thesis
    unfolding make_armourset_list_nonempty [OF assms]
    by (rule assign_weighted_totals_total)
qed

lemma make_armourset_list_Inr:
  assumes "fst (make_armourset_list g) = Inr armours"
  shows "generate g \<noteq> []"
    and "list_all2 (\<lambda>x y. \<exists>w. get_geometric_mean x
       (Min (poison ` set (generate g))) (Max (poison ` set (generate g)))
       (Min (plague ` set (generate g))) (Max (plague ` set (generate g)))
       (Min (total ` set (generate g))) (Max (total ` set (generate g))) (Fin 1) (Fin 1) = Inr w
                            \<and> y = x\<lparr>weighted_total := Some w\<rparr>) (generate g) armours"
proof -
  show ne: "generate g \<noteq> []"
    using assms make_armourset_list_empty [of g] by auto
  show "list_all2 (\<lambda>x y. \<exists>w. get_geometric_mean x
       (Min (poison ` set (generate g))) (Max (poison ` set (generate g)))
       (Min (plague ` set (generate g))) (Max (plague ` set (generate g)))
       (Min (total ` set (generate g))) (Max (total ` set (generate g))) (Fin 1) (Fin 1) = Inr w
                            \<and> y = x\<lparr>weighted_total := Some w\<rparr>) (generate g) armours"
    using assms unfolding make_armourset_list_nonempty [OF ne]
    by (rule assign_weighted_totals_Inr)
qed

lemma generate_nth:
  assumes "i < length (head g)" "j < length (torso g)" "k < length (arms g)" "m < length (legs g)"
  shows "generate g ! (((i * length (torso g) + j) * length (arms g) + k) * length (legs g) + m)
           = armourset_of_combo [head g ! i, torso g ! j, arms g ! k, legs g ! m]"
proof -
  have "((i * length (torso g) + j) * length (arms g) + k) * length (legs g) + m
          < length (product [head g, torso g, arms g, legs g])"
    unfolding length_product4
    by (intro index_in_block assms)
  then show ?thesis
    by (simp add: generate_def nth_product4 [OF assms])
qed

lemma generate_set:
  "a \<in> set (generate g) \<Longrightarrow>
   \<exists>h t r l. h \<in> set (head g) \<and> t \<in> set (torso g) \<and> r \<in> set (arms g) \<and> l \<in> set (legs g)
     \<and> a = armourset_of_combo [h, t, r, l]"
  by (auto simp: generate_def set_product4)

lemma module_globals_lengths:
  "length (head module_globals) = 4" "length (torso module_globals) = 3"
  "length (arms module_globals) = 3" "length (legs module_globals) = 3"
  by (simp_all add: module_globals_def)

lemma generate_module_globals: "generate module_globals \<noteq> []"
  by (simp add: generate_Nil_iff module_globals_def)

lemma make_armourset_list_length:
  "fst (make_armourset_list g) = Inr armours \<Longrightarrow> length armours = length (generate g)"
  using make_armourset_list_Inr(2) [of g armours] by (simp add: list_all2_lengthD)

lemma make_armourset_list_nth:
  assumes "fst (make_armourset_list g) = Inr armours" "n < length armours"
  shows "\<exists>w. armours ! n = (generate g ! n)\<lparr>weighted_total := Some w\<rparr>"
  using make_armourset_list_Inr(2) [OF assms(1)] assms(2)
  by (auto simp: list_all2_conv_all_nth)

lemma make_armourset_list_set:
  assumes "fst (make_armourset_list g) = Inr armours" "a \<in> set armours"
  shows "\<exists>w x. x \<in> set (generate g) \<and> a = x\<lparr>weighted_total := Some w\<rparr>"
proof -
  from assms(2) obtain n where n: "n < length armours" "a = armours ! n"
    by (auto simp: in_set_conv_nth)
  from make_armourset_list_nth [OF assms(1) n(1)] n make_armourset_list_length [OF assms(1)]
  show ?thesis by (metis nth_mem)
qed

lemma module_returns:
  "fst (make_armourset_list module_globals) = Inr (projr (fst (make_armourset_list module_globals)))"
  using make_armourset_list_returns [OF generate_module_globals] by auto

lemma armourset_of_combo4:
  "armourset_of_combo [h, t, r, l] =
     \<lparr>name = name h @ '' + '' @ name t @ '' + '' @ name r @ '' + '' @ name l,
      physical = physical h + physical t + physical r + physical l,
      fire = fire h + fire t + fire r + fire l,
      bleed = bleed h + bleed t + bleed r + bleed l,
      poison = poison h + poison t + poison r + poison l,
      plague = plague h + plague t + plague r + plague l,
      total = (physical h + physical t + physical r + physical l)
            + (fire h + fire t + fire r + fire l)
            + (bleed h + bleed t + bleed r + bleed l)
            + (poison h + poison t + poison r + poison l)
            + (plague h + plague t + plague r + plague l),
      parts = [h, t, r, l], weighted_total = None\<rparr>"
  by (simp add: armourset_of_combo_def ArmourSet_init_def)


lemma scenario_generate:
  "generate scenario =
     [armourset_of_combo [Armour_init ''A'' 1 1 1 0 1, Armour_init ''T'' 2 2 2 2 2,
        Armour_init ''R'' 3 3 3 3 3, Armour_init ''L'' 4 4 4 4 4],
      armourset_of_combo [Armour_init ''B'' 1 1 1 10 1, Armour_init ''T'' 2 2 2 2 2,
        Armour_init ''R'' 3 3 3 3 3, Armour_init ''L'' 4 4 4 4 4]]"
  by (simp add: generate_def scenario_def product_def product_step_def)

lemma scenario_returns:
  "fst (make_armourset_list scenario) =
     Inr [(armourset_of_combo [Armour_init ''A'' 1 1 1 0 1, Armour_init ''T'' 2 2 2 2 2,
             Armour_init ''R'' 3 3 3 3 3, Armour_init ''L'' 4 4 4 4 4])
            \<lparr>weighted_total := Some (PyFloat (Fin 0))\<rparr>,
          (armourset_of_combo [Armour_init ''B'' 1 1 1 10 1, Armour_init ''T'' 2 2 2 2 2,
             Armour_init ''R'' 3 3 3 3 3, Armour_init ''L'' 4 4 4 4 4])
            \<lparr>weighted_total := Some (PyFloat (Fin (1 / 2)))\<rparr>]"
  apply (simp add: make_armourset_list_def scenario_generate Let_def)
  apply (simp add: armourset_of_combo4 py_min_def py_max_def Armour_init_def)
  apply (simp add: get_geometric_mean_def normalise_def int_truediv_def weighted_score_def
      round_float_def float_bound_def)
  done

lemma module_first:
  "projr (fst (make_armourset_list module_globals)) ! 0 \<in> set (projr (fst (make_armourset_list module_globals)))"
  using make_armourset_list_length [OF module_returns]
  by (simp add: generate_length module_globals_lengths)

section \<open>The weighted geometric mean\<close>

lemma float_pow_error:
  "float_pow v w = Inl e \<Longrightarrow> e = ZeroDivisionError \<or> e = OverflowError"
  by (cases v; cases w) (auto split: if_splits)

lemma float_pow_nonneg_exponent:
  "float_nonneg w \<Longrightarrow> float_pow v w \<noteq> Inl ZeroDivisionError"
  by (cases v; cases w) auto

lemma float_truediv_error: "float_truediv a b = Inl e \<Longrightarrow> e = ZeroDivisionError"
  by (cases a; cases b) (auto split: if_splits)

lemma round_float_zero: "round_float 0 = Fin 0"
  using round_float_unit [of 0] by simp

lemma float_add_nonneg:
  assumes "float_nonneg a" "float_nonneg b" "\<not> (a = Fin 0 \<and> b = Fin 0)"
  shows "float_add a b = PInf \<or> (\<exists>t. float_add a b = Fin t \<and> 0 < t)"
proof -
  have "round_float (x + y) = PInf \<or> (\<exists>t. round_float (x + y) = Fin t \<and> 0 < t)"
    if "0 < x + y" for x y :: real
    using round_float_pos [OF that] that by auto
  moreover have "0 < x + y" if "a = Fin x" "b = Fin y" for x y
    using assms that by auto
  ultimately show ?thesis
    using assms by (cases a; cases b) auto
qed

lemma reciprocal_nonneg:
  assumes "tw = PInf \<or> (\<exists>t. tw = Fin t \<and> 0 < t)"
  shows "\<exists>e. float_truediv (Fin 1) tw = Inr e \<and> float_nonneg e"
proof -
  from assms consider "tw = PInf" | t where "tw = Fin t" "0 < t" by blast
  then show ?thesis
  proof cases
    case 1
    then show ?thesis by simp
  next
    case 2
    then have "0 < 1 / t" by simp
    from round_float_pos [OF this] this 2 show ?thesis by auto
  qed
qed

lemma float_pow_nonneg_base:
  assumes "0 \<le> x" "0 \<le> y"
  shows "float_pow (Fin x) (Fin y) = Inl OverflowError
         \<or> (\<exists>r. float_pow (Fin x) (Fin y) = Inr (PyFloat (Fin r)))"
  using assms by simp

lemma float_pow_zero_base:
  assumes "float_truediv (Fin 1) (Fin t) = Inr e" "0 < t"
  shows "float_pow (Fin 0) e = Inr (PyFloat (Fin 0))"
proof -
  from assms(2) have "0 < 1 / t" by simp
  from round_float_pos [OF this] assms this show ?thesis by auto
qed

lemma weighted_score_unit:
  assumes "0 \<le> p" "p \<le> 1" "0 \<le> q" "q \<le> 1"
    and "float_nonneg pw" "float_nonneg pl" "\<not> (pw = Fin 0 \<and> pl = Fin 0)"
  shows "\<exists>r. weighted_score p q pw pl = Inr (PyFloat (Fin r)) \<and> 0 \<le> r \<and> r \<le> 1"
proof -
  from float_pow_unit [OF assms(1,2,5)] obtain ra
    where a: "float_pow (Fin p) pw = Inr (PyFloat (Fin ra))" "0 \<le> ra" "ra \<le> 1" by blast
  from float_pow_unit [OF assms(3,4,6)] obtain rb
    where b: "float_pow (Fin q) pl = Inr (PyFloat (Fin rb))" "0 \<le> rb" "rb \<le> 1" by blast
  note ab = prod_unit [OF a(2,3) b(2,3)]
  have m: "float_mul (Fin ra) (Fin rb) = Fin (ra * rb)"
    using round_float_unit [OF ab] by simp
  from reciprocal_nonneg [OF float_add_nonneg [OF assms(5-7)]] obtain e
    where e: "float_truediv (Fin 1) (float_add pw pl) = Inr e" "float_nonneg e" by blast
  from float_pow_unit [OF ab e(2)] obtain r
    where r: "float_pow (Fin (ra * rb)) e = Inr (PyFloat (Fin r))" "0 \<le> r" "r \<le> 1" by blast
  have "weighted_score p q pw pl = Inr (PyFloat (Fin r))"
    by (simp only: weighted_score_def Let_def a(1) b(1) e(1) bind.simps py_mul.simps m
        py_pow.simps r(1))
  with r show ?thesis by blast
qed

lemma weighted_score_zero_weights:
  "weighted_score p q (Fin 0) (Fin 0) = Inl ZeroDivisionError"
  by (simp add: weighted_score_def round_float_zero)

lemma weighted_score_error:
  assumes "weighted_score p q pw pl = Inl e"
  shows "e = ZeroDivisionError \<or> e = OverflowError"
proof (cases "float_pow (Fin p) pw")
  case (Inl e1)
  with assms float_pow_error [OF Inl] show ?thesis by (simp add: weighted_score_def)
next
  case a: (Inr va)
  show ?thesis
  proof (cases "float_pow (Fin q) pl")
    case (Inl e2)
    with assms a float_pow_error [OF Inl] show ?thesis by (simp add: weighted_score_def)
  next
    case b: (Inr vb)
    show ?thesis
    proof (cases "float_truediv (Fin 1) (float_add pw pl)")
      case (Inl e3)
      with assms a b float_truediv_error [OF Inl] show ?thesis
        by (simp add: weighted_score_def)
    next
      case c: (Inr ex)
      from assms a b c have r: "py_pow (py_mul va vb) ex = Inl e"
        by (simp add: weighted_score_def)
      show ?thesis
      proof (cases "py_mul va vb")
        case (PyFloat f)
        with r float_pow_error [of f ex e] show ?thesis by simp
      next
        case PyComplex
        with r show ?thesis by simp
      qed
    qed
  qed
qed

lemma get_geometric_mean_error:
  assumes "get_geometric_mean a mp Mp mq Mq mt Mt pw pl = Inl e"
  shows "e = ZeroDivisionError \<or> e = OverflowError"
proof (cases "normalise (poison a) mp Mp")
  case (Inl e1)
  with assms normalise_error [OF Inl] show ?thesis by (simp add: get_geometric_mean_def)
next
  case p: (Inr np)
  show ?thesis
  proof (cases "normalise (plague a) mq Mq")
    case (Inl e2)
    with assms p normalise_error [OF Inl] show ?thesis by (simp add: get_geometric_mean_def)
  next
    case q: (Inr nq)
    show ?thesis
    proof (cases "normalise (total a) mt Mt")
      case (Inl e3)
      with assms p q normalise_error [OF Inl] show ?thesis
        by (simp add: get_geometric_mean_def)
    next
      case t: (Inr nt)
      show ?thesis
      proof (cases "weighted_score np nq pw pl")
        case (Inl e4)
        with assms p q t weighted_score_error [OF Inl] show ?thesis
          by (simp add: get_geometric_mean_def)
      next
        case (Inr ws)
        with assms p q t show ?thesis by (simp add: get_geometric_mean_def)
      qed
    qed
  qed
qed

lemma get_geometric_mean_unit:
  assumes "mp \<le> poison a" "poison a \<le> Mp" "mq \<le> plague a" "plague a \<le> Mq"
    "mt \<le> total a" "total a \<le> Mt"
    and "float_nonneg pw" "float_nonneg pl" "\<not> (pw = Fin 0 \<and> pl = Fin 0)"
  shows "\<exists>w. get_geometric_mean a mp Mp mq Mq mt Mt pw pl = Inr (PyFloat (Fin w))
           \<and> 0 \<le> w \<and> w \<le> 1"
proof -
  from normalise_range [OF assms(1,2)] obtain p
    where p: "normalise (poison a) mp Mp = Inr p" "0 \<le> p" "p \<le> 1" by blast
  from normalise_range [OF assms(3,4)] obtain q
    where q: "normalise (plague a) mq Mq = Inr q" "0 \<le> q" "q \<le> 1" by blast
  from normalise_range [OF assms(5,6)] obtain t
    where t: "normalise (total a) mt Mt = Inr t" "0 \<le> t" "t \<le> 1" by blast
  from weighted_score_unit [OF p(2,3) q(2,3) assms(7-9)] obtain r
    where r: "weighted_score p q pw pl = Inr (PyFloat (Fin r))" "0 \<le> r" "r \<le> 1" by blast
  note h = half_sum_unit [OF t(2,3) r(2,3)]
  have "get_geometric_mean a mp Mp mq Mq mt Mt pw pl = Inr (PyFloat (Fin (0.5 * t + 0.5 * r)))"
    unfolding get_geometric_mean_def p(1) q(1) t(1) bind.simps r(1) h(1) ..
  with h(2,3) show ?thesis by blast
qed

lemma get_geometric_mean_zero_weights:
  assumes "mp \<le> poison a" "poison a \<le> Mp" "mq \<le> plague a" "plague a \<le> Mq"
    "mt \<le> total a" "total a \<le> Mt"
  shows "get_geometric_mean a mp Mp mq Mq mt Mt (Fin 0) (Fin 0) = Inl ZeroDivisionError"
proof -
  from normalise_range [OF assms(1,2)] obtain p
    where p: "normalise (poison a) mp Mp = Inr p" by blast
  from normalise_range [OF assms(3,4)] obtain q
    where q: "normalise (plague a) mq Mq = Inr q" by blast
  from normalise_range [OF assms(5,6)] obtain t
    where t: "normalise (total a) mt Mt = Inr t" by blast
  show ?thesis
    unfolding get_geometric_mean_def p q t bind.simps weighted_score_zero_weights ..
qed

section \<open>Rows of the table\<close>

lemma field_names_eq:
  "map fname (filter frepr fields_ArmourSet) =
     [''name'', ''physical'', ''fire'', ''bleed'', ''poison'', ''plague'', ''total'',
      ''weighted_total'']"
  by (simp add: fields_ArmourSet_def fields_Armour_def)

lemma row_dict_finalised:
  assumes "weighted_total a = Some w"
  shows "row_dict a [''name'', ''physical'', ''fire'', ''bleed'', ''poison'', ''plague'', ''total'',
      ''weighted_total''] =
    Inr [(''name'', VStr (name a)), (''physical'', VInt (physical a)), (''fire'', VInt (fire a)),
         (''bleed'', VInt (bleed a)), (''poison'', VInt (poison a)), (''plague'', VInt (plague a)),
         (''total'', VInt (total a)), (''weighted_total'', VNum w)]"
  using assms by (simp add: getattr_def)

lemma row_dict_unassigned:
  assumes "weighted_total a = None"
  shows "row_dict a [''name'', ''physical'', ''fire'', ''bleed'', ''poison'', ''plague'', ''total'',
      ''weighted_total''] = Inl AttributeError"
  using assms by (simp add: getattr_def)

lemma writerow_finalised:
  "writerow [''name'', ''physical'', ''fire'', ''bleed'', ''poison'', ''plague'', ''total'',
      ''weighted_total'']
     [(''name'', v1), (''physical'', v2), (''fire'', v3),
         (''bleed'', v4), (''poison'', v5), (''plague'', v6),
         (''total'', v7), (''weighted_total'', v8)] rows
   = rows @ [[v1, v2, v3, v4, v5, v6, v7, v8]]"
  by (simp add: writerow_def)

lemma write_rows_general:
  "write_rows [''name'', ''physical'', ''fire'', ''bleed'', ''poison'', ''plague'', ''total'',
      ''weighted_total''] armours rows =
    (if \<forall>a \<in> set armours. weighted_total a \<noteq> None then Inr () else Inl AttributeError,
     rows @ map (\<lambda>a. [VStr (name a), VInt (physical a), VInt (fire a), VInt (bleed a),
               VInt (poison a), VInt (plague a), VInt (total a), VNum (the (weighted_total a))])
             (takeWhile (\<lambda>a. weighted_total a \<noteq> None) armours))"
proof (induction armours arbitrary: rows)
  case Nil
  then show ?case by simp
next
  case (Cons a armours)
  show ?case
  proof (cases "weighted_total a")
    case None
    then show ?thesis
      unfolding write_rows.simps row_dict_unassigned [OF None] by simp
  next
    case (Some w)
    show ?thesis
      unfolding write_rows.simps row_dict_finalised [OF Some] sum.case writerow_finalised
        Cons.IH
      by (simp add: Some)
  qed
qed

lemma takeWhile_all: "\<forall>a \<in> set xs. P a \<Longrightarrow> takeWhile P xs = xs"
  by (induction xs) simp_all

lemma write_to_csv_general:
  "write_to_csv armours path fs =
     (if \<forall>a \<in> set armours. weighted_total a \<noteq> None then Inr () else Inl AttributeError,
      fs(path \<mapsto>
        map VStr [''name'', ''physical'', ''fire'', ''bleed'', ''poison'', ''plague'',
                  ''total'', ''weighted_total'']
        # map (\<lambda>a. [VStr (name a), VInt (physical a), VInt (fire a), VInt (bleed a),
                     VInt (poison a), VInt (plague a), VInt (total a),
                     VNum (the (weighted_total a))])
            (takeWhile (\<lambda>a. weighted_total a \<noteq> None) armours)))"
  unfolding write_to_csv_def field_names_eq Let_def write_rows_general
  by (simp add: writeheader_def)

section \<open>Number of candidates\<close>

text \<open>
  C1 (as the claim states it, refuted): the claim gives 36 candidates for the compiled-in
  catalogs. They have 4, 3, 3 and 3 items, and the list \<open>make_armourset_list\<close> returns
  for them has 108 elements.
\<close>

theorem make_armourset_list_count_36_counterexample:
  "map_sum id length (fst (make_armourset_list module_globals)) = Inr 108
   \<and> map_sum id length (fst (make_armourset_list module_globals)) \<noteq> Inr 36"
proof -
  have "length (projr (fst (make_armourset_list module_globals))) = 108"
    using make_armourset_list_length [OF module_returns]
    by (simp add: generate_length module_globals_lengths)
  then have "map_sum id length (fst (make_armourset_list module_globals)) = Inr 108"
    by (subst module_returns) simp
  then show ?thesis by simp
qed

text \<open>
  C1 (amended): whenever \<open>make_armourset_list\<close> returns a list, for any four catalogs,
  the list has exactly \<open>|head| * |torso| * |arms| * |legs|\<close> candidates; with the
  compiled-in catalogs it returns a list of 108 candidates.
\<close>

theorem make_armourset_list_count:
  "(fst (make_armourset_list g) = Inr armours \<longrightarrow>
      length armours = length (head g) * length (torso g) * length (arms g) * length (legs g))
   \<and> map_sum id length (fst (make_armourset_list module_globals)) = Inr 108"
proof -
  have "length (projr (fst (make_armourset_list module_globals))) = 108"
    using make_armourset_list_length [OF module_returns]
    by (simp add: generate_length module_globals_lengths)
  then have "map_sum id length (fst (make_armourset_list module_globals)) = Inr 108"
    by (subst module_returns) simp
  then show ?thesis
    using make_armourset_list_length [of g armours] by (simp add: generate_length)
qed

theorem make_armourset_list_count_witness:
  "fst (make_armourset_list module_globals) = Inr (projr (fst (make_armourset_list module_globals)))
   \<and> length (projr (fst (make_armourset_list module_globals))) = 4 * 3 * 3 * 3"
  using make_armourset_list_count [of module_globals "projr (fst (make_armourset_list module_globals))"]
    module_returns
  by (simp add: module_globals_lengths)

section \<open>Attribute sums\<close>

text \<open>
  C2: every candidate of the list \<open>make_armourset_list\<close> returns has four parts, one
  from each catalog in the order head, torso, arms, legs; each of \<open>physical\<close>,
  \<open>fire\<close>, \<open>bleed\<close>, \<open>poison\<close> and \<open>plague\<close> is the sum of that attribute over the
  parts, and \<open>total\<close> is the sum of the candidate's own five attributes.
\<close>

theorem candidate_sums:
  assumes "fst (make_armourset_list g) = Inr armours" and "a \<in> set armours"
  shows "(\<exists>h t r l. h \<in> set (head g) \<and> t \<in> set (torso g) \<and> r \<in> set (arms g)
            \<and> l \<in> set (legs g) \<and> parts a = [h, t, r, l])
       \<and> physical a = sum_list (map physical (parts a))
       \<and> fire a = sum_list (map fire (parts a))
       \<and> bleed a = sum_list (map bleed (parts a))
       \<and> poison a = sum_list (map poison (parts a))
       \<and> plague a = sum_list (map plague (parts a))
       \<and> total a = physical a + fire a + bleed a + poison a + plague a"
proof -
  from make_armourset_list_set [OF assms] obtain w x
    where x: "x \<in> set (generate g)" and a: "a = x\<lparr>weighted_total := Some w\<rparr>" by blast
  from generate_set [OF x] obtain h t r l
    where c: "h \<in> set (head g)" "t \<in> set (torso g)" "r \<in> set (arms g)" "l \<in> set (legs g)"
      and xc: "x = armourset_of_combo [h, t, r, l]" by blast
  have p: "parts a = [h, t, r, l]" by (simp add: a xc armourset_of_combo4)
  have "\<exists>h t r l. h \<in> set (head g) \<and> t \<in> set (torso g) \<and> r \<in> set (arms g)
            \<and> l \<in> set (legs g) \<and> parts a = [h, t, r, l]"
    using c p by blast
  moreover have "physical a = sum_list (map physical (parts a))"
    unfolding p by (simp add: a xc armourset_of_combo4)
  moreover have "fire a = sum_list (map fire (parts a))"
    unfolding p by (simp add: a xc armourset_of_combo4)
  moreover have "bleed a = sum_list (map bleed (parts a))"
    unfolding p by (simp add: a xc armourset_of_combo4)
  moreover have "poison a = sum_list (map poison (parts a))"
    unfolding p by (simp add: a xc armourset_of_combo4)
  moreover have "plague a = sum_list (map plague (parts a))"
    unfolding p by (simp add: a xc armourset_of_combo4)
  moreover have "total a = physical a + fire a + bleed a + poison a + plague a"
    by (simp add: a xc armourset_of_combo4)
  ultimately show ?thesis by blast
qed

theorem candidate_sums_witness:
  "fst (make_armourset_list module_globals) = Inr (projr (fst (make_armourset_list module_globals)))
   \<and> projr (fst (make_armourset_list module_globals)) ! 0
        \<in> set (projr (fst (make_armourset_list module_globals)))
   \<and> total (projr (fst (make_armourset_list module_globals)) ! 0)
      = physical (projr (fst (make_armourset_list module_globals)) ! 0)
      + fire (projr (fst (make_armourset_list module_globals)) ! 0)
      + bleed (projr (fst (make_armourset_list module_globals)) ! 0)
      + poison (projr (fst (make_armourset_list module_globals)) ! 0)
      + plague (projr (fst (make_armourset_list module_globals)) ! 0)"
  using candidate_sums [OF module_returns module_first] module_returns module_first
  by simp

section \<open>Normalisation\<close>

text \<open>
  C3: for all integers, \<open>normalise\<close> returns \<open>0.0\<close> when \<open>max_val = min_val\<close>; it never
  raises \<open>ZeroDivisionError\<close>, the only exception it can raise being the \<open>OverflowError\<close>
  of a quotient too large for a float; and for \<open>min_val < max_val\<close> and a value between
  the two it returns \<open>(value - min_val) / (max_val - min_val)\<close>, which lies between 0 and 1.
\<close>

theorem normalise_spec:
  "normalise x m m = Inr 0
   \<and> normalise x m M \<noteq> Inl ZeroDivisionError
   \<and> (normalise x m M = Inl e \<longrightarrow>
        e = OverflowError \<and> M \<noteq> m
        \<and> float_bound \<le> \<bar>real_of_int (x - m) / real_of_int (M - m)\<bar>)
   \<and> (m < M \<and> m \<le> x \<and> x \<le> M \<longrightarrow>
        normalise x m M = Inr (real_of_int (x - m) / real_of_int (M - m))
        \<and> 0 \<le> real_of_int (x - m) / real_of_int (M - m)
        \<and> real_of_int (x - m) / real_of_int (M - m) \<le> 1)"
proof -
  have "normalise x m m = Inr 0" by (simp add: normalise_def)
  moreover have "normalise x m M \<noteq> Inl ZeroDivisionError"
    by (simp add: normalise_def int_truediv_def)
  moreover have "e = OverflowError \<and> M \<noteq> m
        \<and> float_bound \<le> \<bar>real_of_int (x - m) / real_of_int (M - m)\<bar>"
    if "normalise x m M = Inl e"
    using that by (auto simp: normalise_def int_truediv_def split: if_splits)
  moreover have "normalise x m M = Inr (real_of_int (x - m) / real_of_int (M - m))
        \<and> 0 \<le> real_of_int (x - m) / real_of_int (M - m)
        \<and> real_of_int (x - m) / real_of_int (M - m) \<le> 1"
    if "m < M \<and> m \<le> x \<and> x \<le> M"
    using that normalise_in_range [of m M x] by blast
  ultimately show ?thesis by blast
qed

theorem normalise_spec_witness:
  "(0::int) < 10 \<and> (0::int) \<le> 4 \<and> (4::int) \<le> 10
   \<and> normalise 4 0 10 = Inr (2 / 5) \<and> normalise 7 3 3 = Inr 0
   \<and> normalise (2 ^ 1024) 0 1 = Inl OverflowError"
proof -
  have "normalise (2 ^ 1024) 0 1 = Inl OverflowError"
    using float_bound_le by (simp add: normalise_def int_truediv_def)
  then show ?thesis
    using normalise_spec [of 4 0 10] normalise_spec [of 7 3 3]
      normalise_spec [of "2 ^ 1024" 0 1 OverflowError]
    by simp
qed

section \<open>The score with the default weights\<close>



section \<open>Zero in the geometric mean\<close>

text \<open>
  C5 (as the claim states it, refuted): the weights 0 and 1 are non-negative and not both
  zero, and \<open>norm_poison\<close> is \<open>0.0\<close>, yet the geometric mean is \<open>1.0\<close>, because
  \<open>0.0 ** 0\<close> is \<open>1.0\<close>; the score of such a candidate is \<open>0.5\<close>, not \<open>0.0\<close>. The same
  happens with two positive weights whose sum overflows (here \<open>2.0 ** 1023\<close> each):
  \<open>total_weight\<close> is infinite,
  \<open>1 / total_weight\<close> is \<open>0.0\<close>, and the outer power is \<open>1.0\<close>.
\<close>

theorem geo_zero_weight_counterexample:
  "normalise 0 0 10 = Inr 0 \<and> normalise 10 0 10 = Inr 1
   \<and> float_nonneg (Fin 0) \<and> float_nonneg (Fin 1)
   \<and> weighted_score 0 1 (Fin 0) (Fin 1) = Inr (PyFloat (Fin 1))
   \<and> get_geometric_mean (ArmourSet_init ''a + b + c + d'' 0 0 0 0 10 []) 0 10 0 10 10 20
         (Fin 0) (Fin 1)
        = Inr (PyFloat (Fin (1 / 2)))
   \<and> float_nonneg (Fin (2 ^ 1023))
   \<and> float_add (Fin (2 ^ 1023)) (Fin (2 ^ 1023)) = PInf
   \<and> weighted_score 0 1 (Fin (2 ^ 1023)) (Fin (2 ^ 1023)) = Inr (PyFloat (Fin 1))"
proof -
  have n: "normalise 0 0 10 = Inr 0" "normalise 10 0 10 = Inr 1" "normalise 10 10 20 = Inr 0"
    by (simp_all add: normalise_def int_truediv_def float_bound_def)
  have t: "float_add (Fin (2 ^ 1023)) (Fin (2 ^ 1023)) = PInf"
    using float_bound_le by (simp add: round_float_def)
  have 1: "weighted_score 0 1 (Fin 0) (Fin 1) = Inr (PyFloat (Fin 1))"
    by (simp add: weighted_score_def round_float_def float_bound_def)
  have 2: "weighted_score 0 1 (Fin (2 ^ 1023)) (Fin (2 ^ 1023)) = Inr (PyFloat (Fin 1))"
    unfolding weighted_score_def Let_def t by (simp add: round_float_zero)
  have 3: "get_geometric_mean (ArmourSet_init ''a + b + c + d'' 0 0 0 0 10 []) 0 10 0 10 10 20
         (Fin 0) (Fin 1) = Inr (PyFloat (Fin (1 / 2)))"
    unfolding get_geometric_mean_def
    by (simp add: ArmourSet_init_def n 1 round_float_def float_bound_def)
  from n t 1 2 3 show ?thesis by simp
qed

text \<open>
  C5 (amended): for finite non-negative weights whose sum is a finite float, and
  non-negative normalised values, when \<open>norm_poison\<close> is \<open>0.0\<close> and its weight is positive,
  or \<open>norm_plague\<close> is \<open>0.0\<close> and its weight is positive, the geometric mean is \<open>0.0\<close>
  whenever it is computed, the power of the other normalised value being the only step
  that can raise (\<open>OverflowError\<close>); for normalised values in \<open>[0, 1]\<close>, as every
  candidate has them, nothing raises and the geometric mean is \<open>0.0\<close>.
\<close>

theorem geo_zero:
  assumes "0 \<le> w_poison" and "0 \<le> w_plague" and "w_poison + w_plague < float_bound"
    and "0 \<le> norm_poison" and "0 \<le> norm_plague"
    and "norm_poison = 0 \<and> 0 < w_poison \<or> norm_plague = 0 \<and> 0 < w_plague"
  shows "(weighted_score norm_poison norm_plague (Fin w_poison) (Fin w_plague)
            = Inr (PyFloat (Fin 0))
          \<or> weighted_score norm_poison norm_plague (Fin w_poison) (Fin w_plague)
            = Inl OverflowError)
       \<and> (norm_poison \<le> 1 \<and> norm_plague \<le> 1 \<longrightarrow>
            weighted_score norm_poison norm_plague (Fin w_poison) (Fin w_plague)
              = Inr (PyFloat (Fin 0)))"
proof -
  let ?ws = "weighted_score norm_poison norm_plague (Fin w_poison) (Fin w_plague)"
  have tw: "0 < w_poison + w_plague" using assms(1,2,6) by auto
  with assms(3) have t: "float_add (Fin w_poison) (Fin w_plague) = Fin (w_poison + w_plague)"
    by (simp add: round_float_Fin)
  from tw obtain e
    where e: "float_truediv (Fin 1) (Fin (w_poison + w_plague)) = Inr e" by auto
  note z = float_pow_zero_base [OF e tw]
  have 1: "?ws = Inr (PyFloat (Fin 0)) \<or> ?ws = Inl OverflowError"
  proof -
    from float_pow_nonneg_base [OF assms(4,1)]
    consider "float_pow (Fin norm_poison) (Fin w_poison) = Inl OverflowError"
      | ra where "float_pow (Fin norm_poison) (Fin w_poison) = Inr (PyFloat (Fin ra))"
      by blast
    then show ?thesis
    proof cases
      case 1
      then have "?ws = Inl OverflowError"
        by (simp only: weighted_score_def Let_def bind.simps)
      then show ?thesis ..
    next
      case a: 2
      from float_pow_nonneg_base [OF assms(5,2)]
      consider "float_pow (Fin norm_plague) (Fin w_plague) = Inl OverflowError"
        | rb where "float_pow (Fin norm_plague) (Fin w_plague) = Inr (PyFloat (Fin rb))"
        by blast
      then show ?thesis
      proof cases
        case 1
        then have "?ws = Inl OverflowError"
          by (simp only: weighted_score_def Let_def a bind.simps)
        then show ?thesis ..
      next
        case b: 2
        have "ra = 0 \<or> rb = 0"
          using assms(6) a b by (auto split: if_splits)
        then have m: "float_mul (Fin ra) (Fin rb) = Fin 0"
          by (auto simp: round_float_zero)
        have "?ws = Inr (PyFloat (Fin 0))"
          by (simp only: weighted_score_def Let_def t a b e bind.simps py_mul.simps m
              py_pow.simps z)
        then show ?thesis ..
      qed
    qed
  qed
  have 2: "?ws = Inr (PyFloat (Fin 0))" if "norm_poison \<le> 1 \<and> norm_plague \<le> 1"
  proof -
    have "\<not> (Fin w_poison = Fin 0 \<and> Fin w_plague = Fin 0)" using tw by auto
    from weighted_score_unit [OF assms(4) _ assms(5) _ _ _ this] that assms(1,2)
    obtain r where "?ws = Inr (PyFloat (Fin r))" by auto
    with 1 show ?thesis by simp
  qed
  from 1 2 show ?thesis by blast
qed

theorem geo_zero_witness:
  "(0::real) \<le> 1 \<and> (0::real) \<le> 2 \<and> (1::real) + 2 < float_bound
   \<and> (0::real) \<le> 0 \<and> (0::real) \<le> 1 / 4 \<and> ((0::real) = 0 \<and> (0::real) < 1)
   \<and> (0::real) \<le> 1 \<and> (1 / 4::real) \<le> 1
   \<and> weighted_score 0 (1 / 4) (Fin 1) (Fin 2) = Inr (PyFloat (Fin 0))"
proof -
  have b: "(1::real) + 2 < float_bound" using float_bound_ge by simp
  from geo_zero [of 1 2 0 "1 / 4"] b show ?thesis by simp
qed

section \<open>Order of the candidates\<close>

text \<open>
  C6: the candidates come in the lexicographic order of the product, head outermost and
  legs innermost: the candidate built from the items at positions \<open>i\<close>, \<open>j\<close>, \<open>k\<close>,
  \<open>m\<close> of the head, torso, arms and legs catalogs is at position
  \<open>((i * |torso| + j) * |arms| + k) * |legs| + m\<close>, after the first loop and in the list
  \<open>make_armourset_list\<close> returns.
\<close>

theorem generation_order:
  assumes "i < length (head g)" "j < length (torso g)" "k < length (arms g)" "m < length (legs g)"
  shows "generate g ! (((i * length (torso g) + j) * length (arms g) + k) * length (legs g) + m)
           = armourset_of_combo [head g ! i, torso g ! j, arms g ! k, legs g ! m]
     \<and> (fst (make_armourset_list g) = Inr armours \<longrightarrow>
          parts (armours ! (((i * length (torso g) + j) * length (arms g) + k) * length (legs g) + m))
            = [head g ! i, torso g ! j, arms g ! k, legs g ! m]
        \<and> name (armours ! (((i * length (torso g) + j) * length (arms g) + k) * length (legs g) + m))
            = name (head g ! i) @ '' + '' @ name (torso g ! j) @ '' + '' @ name (arms g ! k)
                @ '' + '' @ name (legs g ! m))"
proof -
  let ?n = "((i * length (torso g) + j) * length (arms g) + k) * length (legs g) + m"
  have n: "?n < length (generate g)"
    unfolding generate_length by (intro index_in_block assms)
  have g: "generate g ! ?n = armourset_of_combo [head g ! i, torso g ! j, arms g ! k, legs g ! m]"
    by (rule generate_nth [OF assms])
  have "parts (armours ! ?n) = [head g ! i, torso g ! j, arms g ! k, legs g ! m]
        \<and> name (armours ! ?n)
            = name (head g ! i) @ '' + '' @ name (torso g ! j) @ '' + '' @ name (arms g ! k)
                @ '' + '' @ name (legs g ! m)"
    if r: "fst (make_armourset_list g) = Inr armours"
  proof -
    from n make_armourset_list_length [OF r] have "?n < length armours" by simp
    from make_armourset_list_nth [OF r this] obtain w
      where "armours ! ?n = (generate g ! ?n)\<lparr>weighted_total := Some w\<rparr>" by blast
    then show ?thesis by (simp add: g armourset_of_combo4)
  qed
  with g show ?thesis by blast
qed

theorem generation_order_witness:
  "(1::nat) < length (head module_globals) \<and> (2::nat) < length (torso module_globals)
   \<and> (0::nat) < length (arms module_globals) \<and> (1::nat) < length (legs module_globals)
   \<and> fst (make_armourset_list module_globals) = Inr (projr (fst (make_armourset_list module_globals)))
   \<and> name (projr (fst (make_armourset_list module_globals)) ! 46)
       = ''Three-Conered Hat + Imperial Spy Clothes + Old Ragged Gloves + Black Boots''"
proof -
  have l: "(1::nat) < length (head module_globals)" "(2::nat) < length (torso module_globals)"
    "(0::nat) < length (arms module_globals)" "(1::nat) < length (legs module_globals)"
    by (simp_all add: module_globals_lengths)
  have "name (projr (fst (make_armourset_list module_globals)) ! 46)
       = ''Three-Conered Hat + Imperial Spy Clothes + Old Ragged Gloves + Black Boots''"
    using generation_order [OF l, of "projr (fst (make_armourset_list module_globals))"] module_returns
    by (simp add: module_globals_lengths) (simp add: module_globals_def Armour_init_def)
  with l module_returns show ?thesis by blast
qed

section \<open>The table written\<close>

text \<open>
  C7: the field names \<open>write_to_csv\<close> computes are exactly \<open>name\<close>, \<open>physical\<close>,
  \<open>fire\<close>, \<open>bleed\<close>, \<open>poison\<close>, \<open>plague\<close>, \<open>total\<close>, \<open>weighted_total\<close> in that order
  (\<open>parts\<close> is left out). For every input list the file at \<open>path\<close> begins with the
  header row of these eight names, followed by one row per candidate, in the order of the
  list, up to the first candidate whose \<open>weighted_total\<close> was never assigned, where
  \<open>getattr\<close> raises \<open>AttributeError\<close>. So for a list of candidates that all have
  \<open>weighted_total\<close> assigned, \<open>write_to_csv\<close> returns normally and the file holds the
  header followed by exactly one row per candidate; every list \<open>make_armourset_list\<close>
  returns is such a list, and the main block writes it to \<open>out.csv\<close>.
\<close>

theorem write_to_csv_table:
  "map fname (filter frepr fields_ArmourSet) =
     [''name'', ''physical'', ''fire'', ''bleed'', ''poison'', ''plague'', ''total'',
      ''weighted_total'']
   \<and> write_to_csv armours path fs =
        (if \<forall>a \<in> set armours. weighted_total a \<noteq> None then Inr () else Inl AttributeError,
         fs(path \<mapsto>
           map VStr [''name'', ''physical'', ''fire'', ''bleed'', ''poison'', ''plague'',
                       ''total'', ''weighted_total'']
           # map (\<lambda>a. [VStr (name a), VInt (physical a), VInt (fire a), VInt (bleed a),
                          VInt (poison a), VInt (plague a), VInt (total a),
                          VNum (the (weighted_total a))])
               (takeWhile (\<lambda>a. weighted_total a \<noteq> None) armours)))
   \<and> ((\<forall>a \<in> set armours. weighted_total a \<noteq> None) \<longrightarrow>
        write_to_csv armours path fs =
          (Inr (),
           fs(path \<mapsto>
             map VStr [''name'', ''physical'', ''fire'', ''bleed'', ''poison'', ''plague'',
                       ''total'', ''weighted_total'']
             # map (\<lambda>a. [VStr (name a), VInt (physical a), VInt (fire a), VInt (bleed a),
                          VInt (poison a), VInt (plague a), VInt (total a),
                          VNum (the (weighted_total a))])
                 armours)))
   \<and> (fst (make_armourset_list g) = Inr armours \<longrightarrow>
        (\<forall>a \<in> set armours. weighted_total a \<noteq> None)
        \<and> main g fs =
          (Inr (),
           fs(''out.csv'' \<mapsto>
             map VStr [''name'', ''physical'', ''fire'', ''bleed'', ''poison'', ''plague'',
                       ''total'', ''weighted_total'']
             # map (\<lambda>a. [VStr (name a), VInt (physical a), VInt (fire a), VInt (bleed a),
                          VInt (poison a), VInt (plague a), VInt (total a),
                          VNum (the (weighted_total a))])
                 armours)))"
proof -
  have scored: "write_to_csv armours p fs =
          (Inr (),
           fs(p \<mapsto>
             map VStr [''name'', ''physical'', ''fire'', ''bleed'', ''poison'', ''plague'',
                       ''total'', ''weighted_total'']
             # map (\<lambda>a. [VStr (name a), VInt (physical a), VInt (fire a), VInt (bleed a),
                          VInt (poison a), VInt (plague a), VInt (total a),
                          VNum (the (weighted_total a))])
                 armours))"
    if "\<forall>a \<in> set armours. weighted_total a \<noteq> None" for p
    unfolding write_to_csv_general using that by (simp add: takeWhile_all)
  have ret: "\<forall>a \<in> set armours. weighted_total a \<noteq> None"
    if "fst (make_armourset_list g) = Inr armours"
    using make_armourset_list_set [OF that] by fastforce
  have "main g fs =
          (Inr (),
           fs(''out.csv'' \<mapsto>
             map VStr [''name'', ''physical'', ''fire'', ''bleed'', ''poison'', ''plague'',
                       ''total'', ''weighted_total'']
             # map (\<lambda>a. [VStr (name a), VInt (physical a), VInt (fire a), VInt (bleed a),
                          VInt (poison a), VInt (plague a), VInt (total a),
                          VNum (the (weighted_total a))])
                 armours))"
    if "fst (make_armourset_list g) = Inr armours"
    using scored [OF ret [OF that]] that by (simp add: main_def)
  with scored ret show ?thesis
    using field_names_eq write_to_csv_general [of armours path fs] by blast
qed

theorem write_to_csv_table_witness:
  "weighted_total ((ArmourSet_init ''a + b + c + d'' 1 2 3 4 5 [])\<lparr>weighted_total := Some (PyFloat (Fin 0))\<rparr>)
     \<noteq> None
   \<and> write_to_csv [(ArmourSet_init ''a + b + c + d'' 1 2 3 4 5 [])\<lparr>weighted_total := Some (PyFloat (Fin 0))\<rparr>]
       ''out.csv'' Map.empty =
     (Inr (),
      [''out.csv'' \<mapsto>
        [[VStr ''name'', VStr ''physical'', VStr ''fire'', VStr ''bleed'', VStr ''poison'',
          VStr ''plague'', VStr ''total'', VStr ''weighted_total''],
         [VStr ''a + b + c + d'', VInt 1, VInt 2, VInt 3, VInt 4, VInt 5, VInt 15,
          VNum (PyFloat (Fin 0))]]])
   \<and> fst (make_armourset_list scenario) = Inr (projr (fst (make_armourset_list scenario)))
   \<and> fst (main scenario Map.empty) = Inr ()"
proof -
  have r: "fst (make_armourset_list scenario) = Inr (projr (fst (make_armourset_list scenario)))"
    by (simp add: scenario_returns)
  have m: "fst (main scenario Map.empty) = Inr ()"
    using write_to_csv_table
      [of "projr (fst (make_armourset_list scenario))" "''out.csv''" Map.empty scenario] r
    by simp
  have w: "write_to_csv [(ArmourSet_init ''a + b + c + d'' 1 2 3 4 5 [])\<lparr>weighted_total := Some (PyFloat (Fin 0))\<rparr>]
       ''out.csv'' Map.empty =
     (Inr (),
      [''out.csv'' \<mapsto>
        [[VStr ''name'', VStr ''physical'', VStr ''fire'', VStr ''bleed'', VStr ''poison'',
          VStr ''plague'', VStr ''total'', VStr ''weighted_total''],
         [VStr ''a + b + c + d'', VInt 1, VInt 2, VInt 3, VInt 4, VInt 5, VInt 15,
          VNum (PyFloat (Fin 0))]]])"
    using write_to_csv_table
      [of "[(ArmourSet_init ''a + b + c + d'' 1 2 3 4 5 [])\<lparr>weighted_total := Some (PyFloat (Fin 0))\<rparr>]"
          "''out.csv''" Map.empty]
    by (simp add: ArmourSet_init_def)
  from r m w show ?thesis by simp
qed

section \<open>Weights\<close>

text \<open>
  C8: \<open>get_geometric_mean\<close> does not check its weights. With both weights 0 the two
  powers are \<open>1.0\<close> and the division \<open>1 / total_weight\<close> raises \<open>ZeroDivisionError\<close>:
  that is the outcome of the geometric mean for all normalised values, and of the function
  whenever the three calls of \<open>normalise\<close> return, as they do when the values of the
  armour lie between the minima and maxima passed. With non-negative weights that are not
  both zero the division \<open>1 / total_weight\<close> never raises, whatever the other arguments;
  and no \<open>ZeroDivisionError\<close> occurs at all: neither in the geometric mean, as long as
  neither power of a normalised value is a complex number, nor in the function, when
  \<open>poison\<close> and \<open>plague\<close> of the armour lie between their minima and maxima. Whatever
  the weights, the only exceptions are those of the arithmetic, \<open>ZeroDivisionError\<close> and
  \<open>OverflowError\<close>.
\<close>

theorem weights_zero_division:
  "float_pow (Fin norm_poison) (Fin 0) = Inr (PyFloat (Fin 1))
   \<and> float_truediv (Fin 1) (float_add (Fin 0) (Fin 0)) = Inl ZeroDivisionError
   \<and> weighted_score norm_poison norm_plague (Fin 0) (Fin 0) = Inl ZeroDivisionError
   \<and> (get_geometric_mean a mp Mp mq Mq mt Mt (Fin 0) (Fin 0) = Inl ZeroDivisionError
        \<or> get_geometric_mean a mp Mp mq Mq mt Mt (Fin 0) (Fin 0) = Inl OverflowError)
   \<and> (mp \<le> poison a \<and> poison a \<le> Mp \<and> mq \<le> plague a \<and> plague a \<le> Mq
        \<and> mt \<le> total a \<and> total a \<le> Mt \<longrightarrow>
        get_geometric_mean a mp Mp mq Mq mt Mt (Fin 0) (Fin 0) = Inl ZeroDivisionError)
   \<and> (float_nonneg pw \<and> float_nonneg pl \<and> \<not> (pw = Fin 0 \<and> pl = Fin 0) \<longrightarrow>
        (\<exists>ex. float_truediv (Fin 1) (float_add pw pl) = Inr ex \<and> float_nonneg ex))
   \<and> (float_nonneg pw \<and> float_nonneg pl \<and> \<not> (pw = Fin 0 \<and> pl = Fin 0)
        \<and> float_pow (Fin norm_poison) pw \<noteq> Inr PyComplex
        \<and> float_pow (Fin norm_plague) pl \<noteq> Inr PyComplex \<longrightarrow>
        weighted_score norm_poison norm_plague pw pl \<noteq> Inl ZeroDivisionError)
   \<and> (float_nonneg pw \<and> float_nonneg pl \<and> \<not> (pw = Fin 0 \<and> pl = Fin 0)
        \<and> mp \<le> poison a \<and> poison a \<le> Mp \<and> mq \<le> plague a \<and> plague a \<le> Mq \<longrightarrow>
        get_geometric_mean a mp Mp mq Mq mt Mt pw pl \<noteq> Inl ZeroDivisionError)
   \<and> (get_geometric_mean a mp Mp mq Mq mt Mt pw pl = Inl e \<longrightarrow>
        e = ZeroDivisionError \<or> e = OverflowError)"
proof -
  have 1: "float_pow (Fin norm_poison) (Fin 0) = Inr (PyFloat (Fin 1))" by simp
  have 2: "float_truediv (Fin 1) (float_add (Fin 0) (Fin 0)) = Inl ZeroDivisionError"
    by (simp add: round_float_zero)
  have 3: "weighted_score p q (Fin 0) (Fin 0) = Inl ZeroDivisionError" for p q
    by (rule weighted_score_zero_weights)
  have 4: "get_geometric_mean a mp Mp mq Mq mt Mt (Fin 0) (Fin 0) = Inl ZeroDivisionError
        \<or> get_geometric_mean a mp Mp mq Mq mt Mt (Fin 0) (Fin 0) = Inl OverflowError"
  proof -
    have "\<exists>e. get_geometric_mean a mp Mp mq Mq mt Mt (Fin 0) (Fin 0) = Inl e"
      unfolding get_geometric_mean_def
      by (cases "normalise (poison a) mp Mp"; cases "normalise (plague a) mq Mq";
          cases "normalise (total a) mt Mt") (simp_all add: 3)
    with get_geometric_mean_error show ?thesis by blast
  qed
  have 5: "get_geometric_mean a mp Mp mq Mq mt Mt (Fin 0) (Fin 0) = Inl ZeroDivisionError"
    if "mp \<le> poison a \<and> poison a \<le> Mp \<and> mq \<le> plague a \<and> plague a \<le> Mq
        \<and> mt \<le> total a \<and> total a \<le> Mt"
    using that by (intro get_geometric_mean_zero_weights) simp_all
  have 6: "weighted_score p q pw pl \<noteq> Inl ZeroDivisionError"
    if h: "float_nonneg pw \<and> float_nonneg pl \<and> \<not> (pw = Fin 0 \<and> pl = Fin 0)
        \<and> float_pow (Fin p) pw \<noteq> Inr PyComplex \<and> float_pow (Fin q) pl \<noteq> Inr PyComplex"
    for p q
  proof (cases "float_pow (Fin p) pw")
    case (Inl e1)
    with h float_pow_nonneg_exponent [of pw "Fin p"] show ?thesis
      by (simp add: weighted_score_def)
  next
    case a: (Inr va)
    with h obtain fa where fa: "va = PyFloat fa" by (cases va) auto
    show ?thesis
    proof (cases "float_pow (Fin q) pl")
      case (Inl e2)
      with h a float_pow_nonneg_exponent [of pl "Fin q"] show ?thesis
        by (simp add: weighted_score_def)
    next
      case b: (Inr vb)
      with h obtain fb where fb: "vb = PyFloat fb" by (cases vb) auto
      from h reciprocal_nonneg [OF float_add_nonneg [of pw pl]] obtain ex
        where ex: "float_truediv (Fin 1) (float_add pw pl) = Inr ex" "float_nonneg ex" by blast
      have "weighted_score p q pw pl = float_pow (float_mul fa fb) ex"
        by (simp only: weighted_score_def Let_def a b fa fb ex(1) bind.simps py_mul.simps
            py_pow.simps)
      with float_pow_nonneg_exponent [OF ex(2)] show ?thesis by simp
    qed
  qed
  have 7: "get_geometric_mean a mp Mp mq Mq mt Mt pw pl \<noteq> Inl ZeroDivisionError"
    if h: "float_nonneg pw \<and> float_nonneg pl \<and> \<not> (pw = Fin 0 \<and> pl = Fin 0)
        \<and> mp \<le> poison a \<and> poison a \<le> Mp \<and> mq \<le> plague a \<and> plague a \<le> Mq"
  proof -
    from h normalise_range [of mp "poison a" Mp] obtain p
      where p: "normalise (poison a) mp Mp = Inr p" "0 \<le> p" "p \<le> 1" by blast
    from h normalise_range [of mq "plague a" Mq] obtain q
      where q: "normalise (plague a) mq Mq = Inr q" "0 \<le> q" "q \<le> 1" by blast
    from h weighted_score_unit [OF p(2,3) q(2,3), of pw pl] obtain r
      where r: "weighted_score p q pw pl = Inr (PyFloat (Fin r))" by blast
    show ?thesis
    proof (cases "normalise (total a) mt Mt")
      case (Inl e3)
      with normalise_error [OF Inl] show ?thesis
        by (simp add: get_geometric_mean_def p(1) q(1))
    next
      case (Inr t)
      then show ?thesis by (simp add: get_geometric_mean_def p(1) q(1) r)
    qed
  qed
  have 8: "e = ZeroDivisionError \<or> e = OverflowError"
    if "get_geometric_mean a mp Mp mq Mq mt Mt pw pl = Inl e"
    using that by (rule get_geometric_mean_error)
  have 9: "\<exists>ex. float_truediv (Fin 1) (float_add pw pl) = Inr ex \<and> float_nonneg ex"
    if "float_nonneg pw \<and> float_nonneg pl \<and> \<not> (pw = Fin 0 \<and> pl = Fin 0)"
    using that by (intro reciprocal_nonneg float_add_nonneg) simp_all
  from 1 2 3 4 5 6 7 8 9 show ?thesis by blast
qed

theorem weights_zero_division_witness:
  "(4::int) \<le> 4 \<and> (5::int) \<le> 5 \<and> (15::int) \<le> 15
   \<and> float_nonneg (Fin 0) \<and> float_nonneg (Fin 1) \<and> float_nonneg (Fin 3)
   \<and> get_geometric_mean (ArmourSet_init ''a + b + c + d'' 1 2 3 4 5 []) 4 4 5 5 15 15
         (Fin 0) (Fin 0) = Inl ZeroDivisionError
   \<and> get_geometric_mean (ArmourSet_init ''a + b + c + d'' 1 2 3 4 5 []) 4 4 5 5 15 15
         (Fin 0) (Fin 1) = Inr (PyFloat (Fin 0))
   \<and> get_geometric_mean (ArmourSet_init ''a + b + c + d'' 1 2 3 4 5 []) 4 4 5 5 15 15
         (Fin 0) (Fin 1) \<noteq> Inl ZeroDivisionError
   \<and> float_truediv (Fin 1) (float_add (Fin 3) (Fin 0)) = Inr (Fin (1 / 3))
   \<and> float_pow (Fin (- 8)) (Fin 3) = Inr (PyFloat (Fin (- 512)))
   \<and> float_pow (Fin 1) (Fin 0) = Inr (PyFloat (Fin 1))
   \<and> weighted_score (- 8) 1 (Fin 3) (Fin 0) \<noteq> Inl ZeroDivisionError
   \<and> get_geometric_mean (ArmourSet_init ''a + b + c + d'' 1 2 3 4 5 []) 4 4 5 5 15 15
         (Fin (- 1)) (Fin 1) = Inl ZeroDivisionError"
proof -
  let ?a = "ArmourSet_init ''a + b + c + d'' 1 2 3 4 5 []"
  have f: "poison ?a = 4" "plague ?a = 5" "total ?a = 15" by (simp_all add: ArmourSet_init_def)
  have 1: "get_geometric_mean ?a 4 4 5 5 15 15 (Fin 0) (Fin 1) = Inr (PyFloat (Fin 0))"
    by (simp add: get_geometric_mean_def f normalise_def weighted_score_def round_float_def
        float_bound_def)
  have 2: "get_geometric_mean ?a 4 4 5 5 15 15 (Fin (- 1)) (Fin 1) = Inl ZeroDivisionError"
    by (simp add: get_geometric_mean_def f normalise_def weighted_score_def)
  have 3: "float_pow (Fin (- 8)) (Fin 3) = Inr (PyFloat (Fin (- 512)))"
    by (simp add: is_odd_integer_def float_bound_def)
  have 4: "float_pow (Fin 1) (Fin 0) = Inr (PyFloat (Fin 1))" by simp
  from weights_zero_division [of "- 8" 1 ?a 4 4 5 5 15 15 "Fin 3" "Fin 0" ZeroDivisionError] 3 4
  have 5: "weighted_score (- 8) 1 (Fin 3) (Fin 0) \<noteq> Inl ZeroDivisionError"
    by simp
  from weights_zero_division [of 0 0 ?a 4 4 5 5 15 15 "Fin 0" "Fin 1" ZeroDivisionError] f
  have 6: "get_geometric_mean ?a 4 4 5 5 15 15 (Fin 0) (Fin 0) = Inl ZeroDivisionError"
    and 7: "get_geometric_mean ?a 4 4 5 5 15 15 (Fin 0) (Fin 1) \<noteq> Inl ZeroDivisionError"
    by simp_all
  from weights_zero_division
    [of 0 0 ?a 4 4 5 5 15 15 "Fin (- 1)" "Fin 1" ZeroDivisionError] 2
  have 8: "get_geometric_mean ?a 4 4 5 5 15 15 (Fin (- 1)) (Fin 1) = Inl ZeroDivisionError"
    by simp
  have 9: "float_truediv (Fin 1) (float_add (Fin 3) (Fin 0)) = Inr (Fin (1 / 3))"
    by (simp add: round_float_def float_bound_def)
  from 1 3 4 5 6 7 8 9 show ?thesis by simp
qed

section \<open>Empty catalogs\<close>

text \<open>
  C9 (as the claim states it, refuted): with an empty head catalog the first loop yields
  no candidate, and \<open>make_armourset_list\<close> does not return the empty list: \<open>min\<close> of the
  empty sequence raises \<open>ValueError\<close>.
\<close>

theorem empty_catalog_counterexample:
  "generate (module_globals\<lparr>head := []\<rparr>) = []
   \<and> fst (make_armourset_list (module_globals\<lparr>head := []\<rparr>)) = Inl ValueError"
proof -
  have "generate (module_globals\<lparr>head := []\<rparr>) = []" by (simp add: generate_Nil_iff)
  then show ?thesis by (simp add: make_armourset_list_empty)
qed

text \<open>
  C9 (amended): if any of the four catalogs is empty, the generation step yields the
  empty candidate sequence; if all four are non-empty, \<open>make_armourset_list\<close> returns
  a list without raising.
\<close>

theorem empty_catalog:
  "(head g = [] \<or> torso g = [] \<or> arms g = [] \<or> legs g = [] \<longrightarrow> generate g = [])
   \<and> (head g \<noteq> [] \<and> torso g \<noteq> [] \<and> arms g \<noteq> [] \<and> legs g \<noteq> [] \<longrightarrow>
        (\<exists>armours. fst (make_armourset_list g) = Inr armours))"
  using make_armourset_list_returns [of g] by (simp add: generate_Nil_iff)

theorem empty_catalog_witness:
  "torso (module_globals\<lparr>torso := []\<rparr>) = [] \<and> generate (module_globals\<lparr>torso := []\<rparr>) = []
   \<and> head module_globals \<noteq> [] \<and> torso module_globals \<noteq> [] \<and> arms module_globals \<noteq> []
   \<and> legs module_globals \<noteq> []
   \<and> (\<exists>armours. fst (make_armourset_list module_globals) = Inr armours)"
proof -
  have ne: "head module_globals \<noteq> [] \<and> torso module_globals \<noteq> [] \<and> arms module_globals \<noteq> []
   \<and> legs module_globals \<noteq> []" by (simp add: module_globals_def)
  have e: "torso (module_globals\<lparr>torso := []\<rparr>) = []" by simp
  show ?thesis
    using empty_catalog [of module_globals] empty_catalog [of "module_globals\<lparr>torso := []\<rparr>"] ne e
    by blast
qed

section \<open>What the second loop changes\<close>

text \<open>
  C10: the second loop of \<open>make_armourset_list\<close> keeps the number and order of the
  candidates and leaves \<open>name\<close>, \<open>physical\<close>, \<open>fire\<close>, \<open>bleed\<close>, \<open>poison\<close>, \<open>plague\<close>,
  \<open>total\<close> and \<open>parts\<close> of every candidate as they were; it returns whenever the values
  of every candidate lie between the minima and maxima passed, as they do in
  \<open>make_armourset_list\<close>; and \<open>make_armourset_list\<close> leaves the four catalogs as they
  were.
\<close>

theorem normalisation_pass_frame:
  "((\<forall>a \<in> set armours. mp \<le> poison a \<and> poison a \<le> Mp \<and> mq \<le> plague a \<and> plague a \<le> Mq
        \<and> mt \<le> total a \<and> total a \<le> Mt) \<longrightarrow>
     (\<exists>armours'. assign_weighted_totals armours mp Mp mq Mq mt Mt = Inr armours'
      \<and> length armours' = length armours
      \<and> (\<forall>n < length armours.
            name (armours' ! n) = name (armours ! n)
          \<and> physical (armours' ! n) = physical (armours ! n)
          \<and> fire (armours' ! n) = fire (armours ! n)
          \<and> bleed (armours' ! n) = bleed (armours ! n)
          \<and> poison (armours' ! n) = poison (armours ! n)
          \<and> plague (armours' ! n) = plague (armours ! n)
          \<and> total (armours' ! n) = total (armours ! n)
          \<and> parts (armours' ! n) = parts (armours ! n))))
   \<and> (\<forall>armours'. assign_weighted_totals armours mp Mp mq Mq mt Mt = Inr armours' \<longrightarrow>
      length armours' = length armours
      \<and> (\<forall>n < length armours.
            name (armours' ! n) = name (armours ! n)
          \<and> physical (armours' ! n) = physical (armours ! n)
          \<and> fire (armours' ! n) = fire (armours ! n)
          \<and> bleed (armours' ! n) = bleed (armours ! n)
          \<and> poison (armours' ! n) = poison (armours ! n)
          \<and> plague (armours' ! n) = plague (armours ! n)
          \<and> total (armours' ! n) = total (armours ! n)
          \<and> parts (armours' ! n) = parts (armours ! n)))
   \<and> snd (make_armourset_list g) = g"
proof -
  have frame: "length armours' = length armours
      \<and> (\<forall>n < length armours.
            name (armours' ! n) = name (armours ! n)
          \<and> physical (armours' ! n) = physical (armours ! n)
          \<and> fire (armours' ! n) = fire (armours ! n)
          \<and> bleed (armours' ! n) = bleed (armours ! n)
          \<and> poison (armours' ! n) = poison (armours ! n)
          \<and> plague (armours' ! n) = plague (armours ! n)
          \<and> total (armours' ! n) = total (armours ! n)
          \<and> parts (armours' ! n) = parts (armours ! n))"
    if r: "assign_weighted_totals armours mp Mp mq Mq mt Mt = Inr armours'" for armours'
  proof -
    note l = assign_weighted_totals_Inr [OF r]
    have len: "length armours' = length armours"
      using l by (simp add: list_all2_lengthD)
    have "\<exists>w. armours' ! n = (armours ! n)\<lparr>weighted_total := Some w\<rparr>"
      if "n < length armours" for n
      using l that by (auto simp: list_all2_conv_all_nth)
    then show ?thesis using len by fastforce
  qed
  have ret: "\<exists>armours'. assign_weighted_totals armours mp Mp mq Mq mt Mt = Inr armours'"
    if h: "\<forall>a \<in> set armours. mp \<le> poison a \<and> poison a \<le> Mp \<and> mq \<le> plague a
        \<and> plague a \<le> Mq \<and> mt \<le> total a \<and> total a \<le> Mt"
  proof (rule assign_weighted_totals_total)
    fix x assume "x \<in> set armours"
    with h get_geometric_mean_unit [of mp x Mp mq Mq mt Mt "Fin 1" "Fin 1"]
    show "\<exists>w. get_geometric_mean x mp Mp mq Mq mt Mt (Fin 1) (Fin 1) = Inr w"
      by fastforce
  qed
  have "snd (make_armourset_list g) = g"
    by (simp add: make_armourset_list_def Let_def)
  with frame ret show ?thesis by blast
qed

theorem normalisation_pass_frame_witness:
  "(4::int) \<le> 4 \<and> (5::int) \<le> 5 \<and> (15::int) \<le> 15
   \<and> (0::nat) < length [ArmourSet_init ''a + b + c + d'' 1 2 3 4 5 []]
   \<and> assign_weighted_totals [ArmourSet_init ''a + b + c + d'' 1 2 3 4 5 []] 4 4 5 5 15 15
       = Inr [(ArmourSet_init ''a + b + c + d'' 1 2 3 4 5 [])
               \<lparr>weighted_total := Some (PyFloat (Fin 0))\<rparr>]
   \<and> (\<exists>armours'. assign_weighted_totals [ArmourSet_init ''a + b + c + d'' 1 2 3 4 5 []] 4 4 5 5 15 15
         = Inr armours'
       \<and> name (armours' ! 0) = ''a + b + c + d'' \<and> poison (armours' ! 0) = 4
       \<and> total (armours' ! 0) = 15 \<and> parts (armours' ! 0) = [])"
proof -
  have r: "assign_weighted_totals [ArmourSet_init ''a + b + c + d'' 1 2 3 4 5 []] 4 4 5 5 15 15
       = Inr [(ArmourSet_init ''a + b + c + d'' 1 2 3 4 5 [])
               \<lparr>weighted_total := Some (PyFloat (Fin 0))\<rparr>]"
    by (simp add: get_geometric_mean_def normalise_def weighted_score_def round_float_def
        float_bound_def ArmourSet_init_def)
  from normalisation_pass_frame
    [of "[ArmourSet_init ''a + b + c + d'' 1 2 3 4 5 []]" 4 4 5 5 15 15]
  have "\<exists>armours'. assign_weighted_totals [ArmourSet_init ''a + b + c + d'' 1 2 3 4 5 []] 4 4 5 5 15 15
         = Inr armours'
       \<and> name (armours' ! 0) = ''a + b + c + d'' \<and> poison (armours' ! 0) = 4
       \<and> total (armours' ! 0) = 15 \<and> parts (armours' ! 0) = []"
    by (auto simp: ArmourSet_init_def)
  with r show ?thesis by simp
qed

end
